theory Spec2Isabelle
  imports Complex_Main
begin

section \<open>Quiz navigation and scoring (Source/QuizUIController.js, sidebar.js)\<close>

text \<open>
  A \<^verbatim>\<open>.question\<close> element of the quiz markup, reduced to what the controller reads and
  writes: whether it carries the class \<^verbatim>\<open>active\<close>, the \<^verbatim>\<open>value\<close> of its checked radio
  input (\<open>None\<close> when no radio is checked) and the \<^verbatim>\<open>textContent\<close> of its
  \<^verbatim>\<open>.correct-answer\<close> child (\<open>None\<close> when there is no such child).
\<close>

record quiz_question =
  active :: bool
  selected :: "string option"
  correct_answer :: "string option"

text \<open>
  The controller's fields. \<open>questions\<close> is the result of \<^verbatim>\<open>querySelectorAll('.question')\<close>;
  it is \<open>None\<close> when the optional chain yields \<^verbatim>\<open>undefined\<close> because the container
  element does not exist.
\<close>

record quiz_state =
  questions :: "quiz_question list option"
  currentQuestionIndex :: int
  totalQuestions :: int

datatype js_error = TypeError

text \<open>\<^verbatim>\<open>questions[i]\<close>: an element, or \<^verbatim>\<open>undefined\<close> out of range.\<close>

definition item :: "'a list \<Rightarrow> int \<Rightarrow> 'a option" where
  "item xs i = (if 0 \<le> i \<and> i < int (length xs) then Some (xs ! nat i) else None)"

text \<open>\<^verbatim>\<open>questions[i]?.classList.add/remove('active')\<close>: nothing happens out of range.\<close>

definition set_active :: "quiz_question list \<Rightarrow> int \<Rightarrow> bool \<Rightarrow> quiz_question list" where
  "set_active qs i b =
     (case item qs i of
        None \<Rightarrow> qs
      | Some q \<Rightarrow> qs[nat i := q\<lparr>active := b\<rparr>])"

text \<open>
  \<^verbatim>\<open>initializeQuizNavigation\<close>, as far as the cursor and the questions go. \<open>wrapped\<close>
  says whether the container already holds the \<^verbatim>\<open>.quiz-navigation-wrapper\<close>. When it
  does not, the function builds it and re-creates the questions from the container's
  \<^verbatim>\<open>innerHTML\<close>: the new elements keep their classes and their correct-answer text, but
  a radio checked by the user is no longer checked (the quiz markup itself carries no
  \<^verbatim>\<open>checked\<close> attribute), and the first of them is made active.
\<close>

definition initializeQuizNavigation :: "bool \<Rightarrow> quiz_state \<Rightarrow> quiz_state" where
  "initializeQuizNavigation wrapped s =
     (case questions s of
        None \<Rightarrow> s\<lparr>currentQuestionIndex := 0\<rparr>
      | Some qs \<Rightarrow>
          (let qs1 = set_active qs 0 True;
               qs2 = (if wrapped then qs1
                      else set_active (map (\<lambda>q. q\<lparr>selected := None\<rparr>) qs1) 0 True)
           in s\<lparr>currentQuestionIndex := 0,
                totalQuestions := int (length qs),
                questions := Some qs2\<rparr>))"

text \<open>\<^verbatim>\<open>QuizUIController.navigateQuestions(direction)\<close>.\<close>

definition navigateQuestions :: "int \<Rightarrow> quiz_state \<Rightarrow> quiz_state" where
  "navigateQuestions direction s =
     (case questions s of
        None \<Rightarrow> s
      | Some qs \<Rightarrow>
          (let qs1 = set_active qs (currentQuestionIndex s) False;
               idx = max 0 (min (totalQuestions s - 1) (currentQuestionIndex s + direction))
           in s\<lparr>currentQuestionIndex := idx,
                questions := Some (set_active qs1 idx True)\<rparr>))"

text \<open>A run of clicks on the navigation buttons, each with its direction.\<close>

fun navigate_all :: "int list \<Rightarrow> quiz_state \<Rightarrow> quiz_state" where
  "navigate_all [] s = s"
| "navigate_all (d # ds) s = navigate_all ds (navigateQuestions d s)"

text \<open>
  The state of a quiz of \<open>n\<close> questions whose cursor is on one of them: what
  \<^verbatim>\<open>initializeQuizNavigation\<close> sets up when there is at least one question.
\<close>

definition cursor_ok :: "nat \<Rightarrow> quiz_state \<Rightarrow> bool" where
  "cursor_ok n s =
     (map_option length (questions s) = Some n \<and> totalQuestions s = int n
      \<and> 0 \<le> currentQuestionIndex s \<and> currentQuestionIndex s < int n)"

text \<open>
  \<^verbatim>\<open>navigateQuestions(direction)\<close> of sidebar.js: the same clamp, but the element is
  dereferenced without an optional chain, so an index outside the list throws a TypeError.
  \<open>Inl\<close> carries the state at the moment of the throw.
\<close>

definition sidebar_navigateQuestions ::
  "int \<Rightarrow> quiz_state \<Rightarrow> (js_error \<times> quiz_state) + quiz_state" where
  "sidebar_navigateQuestions direction s =
     (case questions s of
        None \<Rightarrow> Inr s
      | Some qs \<Rightarrow>
          (case item qs (currentQuestionIndex s) of
             None \<Rightarrow> Inl (TypeError, s)
           | Some _ \<Rightarrow>
               (let qs1 = set_active qs (currentQuestionIndex s) False;
                    idx = max 0 (min (totalQuestions s - 1) (currentQuestionIndex s + direction));
                    s1 = s\<lparr>currentQuestionIndex := idx, questions := Some qs1\<rparr>
                in case item qs1 idx of
                     None \<Rightarrow> Inl (TypeError, s1)
                   | Some _ \<Rightarrow> Inr (s1\<lparr>questions := Some (set_active qs1 idx True)\<rparr>))))"

text \<open>
  \<^verbatim>\<open>Math.round((correctAnswers / totalQuestions) * 100)\<close>. With no question the quotient
  is NaN (0/0), which is \<open>None\<close> here; a positive count over zero questions cannot occur
  because the count is taken over the same list. The code rounds a double where this
  definition rounds the exact quotient: the two agree unless the exact percentage lies
  within the rounding error of a half (23 of 40 is exactly 57.5 and rounds to 58 here, while
  the double is just below and rounds to 57). For the quiz of three questions, the only size
  a property below is stated for, they agree: 0, 33, 67 and 100.
\<close>

definition percentage :: "nat \<Rightarrow> nat \<Rightarrow> int option" where
  "percentage correctAnswers total_questions =
     (if total_questions = 0 then None
      else Some (round (real correctAnswers / real total_questions * 100)))"

text \<open>
  What \<^verbatim>\<open>showQuizResultsDialog\<close> writes into the dialog: the score text's numbers, the
  tier that both class names end in, and the message.
\<close>

record quiz_result =
  score_correct :: nat
  score_total :: nat
  score_percentage :: "int option"
  tier :: string
  message :: string

definition showQuizResultsDialog :: "nat \<Rightarrow> nat \<Rightarrow> quiz_result" where
  "showQuizResultsDialog correctAnswers total_questions =
     (let p = percentage correctAnswers total_questions in
      \<lparr>score_correct = correctAnswers,
       score_total = total_questions,
       score_percentage = p,
       tier = (if p = Some 100 then ''win''
               else if correctAnswers = 2 then ''ok''
               else if correctAnswers = 1 then ''partial''
               else ''fail''),
       message = (if p = Some 100 then ''YOU WON!''
                  else if correctAnswers = 2 then ''YOU DID OK''
                  else if correctAnswers = 1 then ''AT LEAST YOU KNEW ONE THING!''
                  else ''YOU COULDN'T BE MORE WRONG!'')\<rparr>)"

text \<open>
  The body of the \<^verbatim>\<open>forEach\<close> in \<^verbatim>\<open>checkQuizAnswers\<close>, as far as the counter goes: a
  question counts when a radio is checked and its value is strictly equal to the text of
  the correct-answer element.
\<close>

definition count_step :: "quiz_question \<Rightarrow> nat \<Rightarrow> nat" where
  "count_step q n =
     (case selected q of
        None \<Rightarrow> n
      | Some v \<Rightarrow> if correct_answer q = Some v then n + 1 else n)"

definition checkQuizAnswers :: "quiz_question list option \<Rightarrow> quiz_result option" where
  "checkQuizAnswers qso =
     (case qso of
        None \<Rightarrow> None
      | Some qs \<Rightarrow> Some (showQuizResultsDialog (fold count_step qs 0) (length qs)))"

text \<open>The scoring rule in the specification's words, to compare the code with.\<close>

definition answered_correctly :: "quiz_question \<Rightarrow> bool" where
  "answered_correctly q = (selected q \<noteq> None \<and> selected q = correct_answer q)"

definition tally :: "quiz_question list \<Rightarrow> nat" where
  "tally qs = length (filter answered_correctly qs)"

definition spec_tier :: "nat \<Rightarrow> string" where
  "spec_tier c =
     (if c = 3 then ''win'' else if c = 2 then ''ok'' else if c = 1 then ''partial'' else ''fail'')"

section \<open>The generated-content cache (Source/ContentGenerator.js)\<close>

text \<open>
  \<^verbatim>\<open>chrome.storage.local\<close> as a map from keys to the objects
  \<^verbatim>\<open>{content, timestamp, videoId}\<close> that \<^verbatim>\<open>saveGeneratedContent\<close> stores. The payload is
  any non-null value. Times are \<^verbatim>\<open>Date.now()\<close>, in milliseconds, passed in as \<open>now\<close>.
  The storage calls are taken to succeed; a rejected call is caught and logged by the
  code and leaves the storage as it was.
\<close>

record 'c cache_entry =
  content :: 'c
  timestamp :: int
  videoId :: string

type_synonym 'c storage = "string \<rightharpoonup> 'c cache_entry"

definition CACHE_EXPIRY_TIME :: int where
  "CACHE_EXPIRY_TIME = 24 * 60 * 60 * 1000"

text \<open>
  \<^verbatim>\<open>!videoId\<close> for an identity that is \<^verbatim>\<open>null\<close> (\<open>None\<close>) or a string: \<^verbatim>\<open>null\<close> and the
  empty string are falsy.
\<close>

definition falsy :: "string option \<Rightarrow> bool" where
  "falsy v = (case v of None \<Rightarrow> True | Some s \<Rightarrow> s = [])"

text \<open>The key \<^verbatim>\<open>`${type}_${videoId}`\<close>.\<close>

definition cache_key :: "string \<Rightarrow> string \<Rightarrow> string" where
  "cache_key type vid = type @ ''_'' @ vid"

definition saveGeneratedContent ::
  "int \<Rightarrow> string option \<Rightarrow> string \<Rightarrow> 'c \<Rightarrow> 'c storage \<Rightarrow> 'c storage" where
  "saveGeneratedContent now vid type c st =
     (case vid of
        None \<Rightarrow> st
      | Some v \<Rightarrow>
          if v = [] then st
          else st(cache_key type v \<mapsto> \<lparr>content = c, timestamp = now, videoId = v\<rparr>))"

text \<open>
  \<^verbatim>\<open>loadGeneratedContent\<close> returns the payload or \<^verbatim>\<open>null\<close> (\<open>None\<close>), and the storage
  as the read leaves it.
\<close>

definition loadGeneratedContent ::
  "int \<Rightarrow> string option \<Rightarrow> string \<Rightarrow> 'c storage \<Rightarrow> 'c option \<times> 'c storage" where
  "loadGeneratedContent now vid type st =
     (case vid of
        None \<Rightarrow> (None, st)
      | Some v \<Rightarrow>
          if v = [] then (None, st)
          else (case st (cache_key type v) of
                  None \<Rightarrow> (None, st)
                | Some data \<Rightarrow>
                    if now - timestamp data > CACHE_EXPIRY_TIME
                    then (None, st(cache_key type v := None))
                    else (Some (content data), st)))"

text \<open>
  \<^verbatim>\<open>getVideoId\<close>. The URL parser of the platform is a parameter: \<open>new_URL u\<close> is \<open>None\<close>
  when \<^verbatim>\<open>new URL(u)\<close> throws, and otherwise the parsed URL, of which only the query
  parameters, in their order, are read. \<^verbatim>\<open>searchParams.get(name)\<close> is the value of the
  first parameter of that name, or \<^verbatim>\<open>null\<close>.
\<close>

record url =
  searchParams :: "(string \<times> string) list"

definition searchParams_get :: "(string \<times> string) list \<Rightarrow> string \<Rightarrow> string option" where
  "searchParams_get ps name = map_option snd (find (\<lambda>p. fst p = name) ps)"

definition getVideoId :: "(string \<Rightarrow> url option) \<Rightarrow> string \<Rightarrow> string option" where
  "getVideoId new_URL u =
     (case new_URL u of
        None \<Rightarrow> None
      | Some urlObj \<Rightarrow> searchParams_get (searchParams urlObj) ''v'')"

section \<open>The generation routes and their usage quota (backend/routes/api.js)\<close>

subsection \<open>The users table and the helpers the routes import\<close>

text \<open>
  A row of the \<^verbatim>\<open>users\<close> table, with the columns the routes and the registration
  statement of auth.js name (\<^verbatim>\<open>enhancements_used\<close>, \<^verbatim>\<open>enhancements_limit\<close>,
  \<^verbatim>\<open>subscription_status\<close>) and the start of the current quota window, in
  milliseconds (the specification's \<^verbatim>\<open>lastResetAt\<close>; no route reads it). The table is a
  map from user ids to rows. Queries are taken to succeed.
\<close>

datatype subscription = Freemium | Premium

record user_row =
  enhancements_used :: int
  enhancements_limit :: int
  last_reset_at :: int
  subscription_status :: subscription

type_synonym users = "nat \<rightharpoonup> user_row"

text \<open>The object \<^verbatim>\<open>incrementUsage\<close> resolves to, as the routes read it.\<close>

record usage_counters =
  enhancementsUsed :: int
  enhancementsLimit :: int

record increment_result =
  success :: bool
  error :: "string option"
  usage :: "usage_counters option"

text \<open>
  What \<^verbatim>\<open>fetch\<close> against the completion provider comes to: the call is rejected (with
  the error's message), the response is not \<^verbatim>\<open>ok\<close> (with its text), or it carries the
  completed text.
\<close>

datatype fetch_result = FetchRejected string | HttpError string | HttpOk string

datatype json =
    JNull
  | JBool bool
  | JNum rat
  | JStr string
  | JArr "json list"
  | JObj "(string \<times> json) list"

text \<open>
  The surroundings of a route: \<^verbatim>\<open>resetDailyUsageIfNeeded\<close> and \<^verbatim>\<open>incrementUsage\<close> are
  imported from config/usage.js, the key comes from the process environment, \<open>fetch\<close> is
  the provider (as a function of the user message; the system prompt and the token budget,
  which a route computes from the content and which only the provider reads, are left out),
  and \<open>JSON_parse\<close> is \<^verbatim>\<open>JSON.parse\<close>, \<open>None\<close> when it throws.
\<close>

record env =
  resetDailyUsageIfNeeded :: "nat \<Rightarrow> users \<Rightarrow> users"
  incrementUsage :: "nat \<Rightarrow> users \<Rightarrow> increment_result \<times> users"
  OPENAI_API_KEY :: "string option"
  fetch :: "string \<Rightarrow> fetch_result"
  JSON_parse :: "string \<Rightarrow> json option"

definition day_ms :: int where
  "day_ms = 24 * 60 * 60 * 1000"

text \<open>
  Modelled from the spec: config/usage.js is not among the sources. This is
  \<^verbatim>\<open>resetIfNeeded\<close> of the specification's UsageStore: if at least 24 hours have passed
  since the window started, the counter is set to 0 and the window starts now; otherwise
  nothing changes. \<open>now\<close> is the time of the call.
\<close>

definition resetIfNeeded :: "int \<Rightarrow> nat \<Rightarrow> users \<Rightarrow> users" where
  "resetIfNeeded now userId db =
     (case db userId of
        None \<Rightarrow> db
      | Some r \<Rightarrow>
          if now - last_reset_at r \<ge> day_ms
          then db(userId \<mapsto> r\<lparr>enhancements_used := 0, last_reset_at := now\<rparr>)
          else db)"

text \<open>
  Modelled from the spec: config/usage.js is not among the sources. This is
  \<^verbatim>\<open>incrementIfAllowed\<close> of the specification's UsageStore, as one step on the table: it
  checks \<open>enhancementsUsed < enhancementsLimit\<close> (not for premium users, who always
  succeed) and, if allowed, adds 1 to the counter and returns the counters after the
  increment; otherwise it fails with QuotaExceeded and returns the current counters. A
  missing user fails with NotFound.
\<close>

definition incrementIfAllowed :: "nat \<Rightarrow> users \<Rightarrow> increment_result \<times> users" where
  "incrementIfAllowed userId db =
     (case db userId of
        None \<Rightarrow> (\<lparr>success = False, error = Some ''NotFound'', usage = None\<rparr>, db)
      | Some r \<Rightarrow>
          if subscription_status r = Premium \<or> enhancements_used r < enhancements_limit r
          then (\<lparr>success = True, error = None,
                 usage = Some \<lparr>enhancementsUsed = enhancements_used r + 1,
                               enhancementsLimit = enhancements_limit r\<rparr>\<rparr>,
                db(userId \<mapsto> r\<lparr>enhancements_used := enhancements_used r + 1\<rparr>))
          else (\<lparr>success = False, error = Some ''QuotaExceeded'',
                 usage = Some \<lparr>enhancementsUsed = enhancements_used r,
                               enhancementsLimit = enhancements_limit r\<rparr>\<rparr>,
                db))"

subsection \<open>Responses\<close>

record flashcard =
  question :: json
  answer :: json

datatype body =
    ErrorBody string
  | LimitReachedBody string int int
  | IncrementFailedBody string "usage_counters option"
  | SummaryBody string string int int int
  | FlashcardsBody "flashcard list" string int int int

text \<open>
  \<open>ErrorBody e\<close> is \<^verbatim>\<open>{error: e}\<close>; \<open>LimitReachedBody e u l\<close> is
  \<^verbatim>\<open>{error: e, enhancementsUsed: u, enhancementsLimit: l}\<close>; \<open>IncrementFailedBody e u\<close> is
  \<^verbatim>\<open>{error: e, usage: u}\<close>; \<open>SummaryBody s t u l r\<close> is
  \<^verbatim>\<open>{summary: s, contentType: t, usage: {enhancementsUsed: u, enhancementsLimit: l, remaining: r}}\<close>
  and \<open>FlashcardsBody\<close> likewise with the cards. \<^verbatim>\<open>res.json\<close> without a status is 200.
\<close>

record response =
  status :: nat
  json_body :: body

subsection \<open>Strings\<close>

text \<open>
  Strings are sequences of code units below 256. \<open>is_space\<close> is the class \<^verbatim>\<open>\s\<close> there
  (tab, line feed, vertical tab, form feed, carriage return, space, no-break space), which
  is also what \<^verbatim>\<open>trim\<close> removes; \<open>is_digit\<close> is \<^verbatim>\<open>\d\<close>.
\<close>

definition is_digit :: "char \<Rightarrow> bool" where
  "is_digit c = (c \<in> set ''0123456789'')"

definition is_space :: "char \<Rightarrow> bool" where
  "is_space c = (c \<in> {CHR 0x09, CHR 0x0A, CHR 0x0B, CHR 0x0C, CHR 0x0D, CHR 0x20, CHR 0xA0})"

text \<open>
  A match of \<^verbatim>\<open>\[\d+:\d+\]\<close> at the start of the string: the rest of the string after
  the match, or \<open>None\<close>.
\<close>

definition match_timestamp :: "string \<Rightarrow> string option" where
  "match_timestamp s =
     (case s of
        [] \<Rightarrow> None
      | c # r \<Rightarrow>
          if c \<noteq> CHR ''['' \<or> takeWhile is_digit r = [] then None
          else (case dropWhile is_digit r of
                  [] \<Rightarrow> None
                | c1 # r1 \<Rightarrow>
                    if c1 \<noteq> CHR '':'' \<or> takeWhile is_digit r1 = [] then None
                    else (case dropWhile is_digit r1 of
                            [] \<Rightarrow> None
                          | c2 # r2 \<Rightarrow> if c2 = CHR '']'' then Some r2 else None)))"

text \<open>\<^verbatim>\<open>s.replace(/\[\d+:\d+\]/g, '')\<close>.\<close>

function strip_timestamps :: "string \<Rightarrow> string" where
  "strip_timestamps [] = []"
| "strip_timestamps (c # cs) =
     (case match_timestamp (c # cs) of
        Some rest \<Rightarrow> strip_timestamps rest
      | None \<Rightarrow> c # strip_timestamps cs)"
  by pat_completeness auto
termination
proof (relation "measure length")
  show "wf (measure length)" by simp
next
  fix c :: char and cs rest :: string
  assume "match_timestamp (c # cs) = Some rest"
  then obtain c1 r1 c2 where
    d1: "dropWhile is_digit cs = c1 # r1" and d2: "dropWhile is_digit r1 = c2 # rest"
    by (auto simp: match_timestamp_def split: list.splits if_splits)
  from length_dropWhile_le [of is_digit cs] d1 have "length r1 < length cs" by simp
  moreover from length_dropWhile_le [of is_digit r1] d2 have "length rest < length r1" by simp
  ultimately show "(rest, c # cs) \<in> measure length" by simp
next
  fix c :: char and cs :: string
  show "(cs, c # cs) \<in> measure length" by simp
qed

text \<open>\<^verbatim>\<open>s.replace(/\s+/g, ' ')\<close>.\<close>

function collapse_ws :: "string \<Rightarrow> string" where
  "collapse_ws [] = []"
| "collapse_ws (c # cs) =
     (if is_space c then CHR '' '' # collapse_ws (dropWhile is_space cs)
      else c # collapse_ws cs)"
  by pat_completeness auto
termination
  by (relation "measure length") (auto simp: less_Suc_eq_le length_dropWhile_le)

definition trim :: "string \<Rightarrow> string" where
  "trim s = rev (dropWhile is_space (rev (dropWhile is_space s)))"

text \<open>\<^verbatim>\<open>a || b\<close> on values that are \<^verbatim>\<open>undefined\<close> (\<open>None\<close>) or strings.\<close>

definition js_or :: "string option \<Rightarrow> string option \<Rightarrow> string option" where
  "js_or a b = (if falsy a then b else a)"

text \<open>\<^verbatim>\<open>a || d\<close> with a string default.\<close>

definition or_default :: "string option \<Rightarrow> string \<Rightarrow> string" where
  "or_default a d = (case a of None \<Rightarrow> d | Some s \<Rightarrow> if s = [] then d else s)"

text \<open>
  The cleaning of the content text: timestamps are removed from video transcripts only,
  runs of whitespace become one space, and the ends are trimmed.
\<close>

definition clean_content :: "string \<Rightarrow> string \<Rightarrow> string" where
  "clean_content type contentText =
     (if type = ''video''
      then trim (collapse_ws (strip_timestamps contentText))
      else trim (collapse_ws contentText))"

subsection \<open>The provider call\<close>

text \<open>
  \<^verbatim>\<open>callOpenAI\<close>: \<open>Inl\<close> is the message of the error it throws, \<open>Inr\<close> the text it
  returns.
\<close>

definition callOpenAI :: "env \<Rightarrow> string \<Rightarrow> string + string" where
  "callOpenAI e userContent =
     (if falsy (OPENAI_API_KEY e) then Inl ''OpenAI API key not configured''
      else (case fetch e userContent of
              FetchRejected m \<Rightarrow> Inl m
            | HttpError errorText \<Rightarrow> Inl (''OpenAI API error: '' @ errorText)
            | HttpOk c \<Rightarrow> Inr c))"

subsection \<open>The usage check that every generation route makes\<close>

text \<open>
  The statements from the \<^verbatim>\<open>SELECT\<close> to the test of \<^verbatim>\<open>incrementResult.success\<close>, the
  same in \<^verbatim>\<open>/summarize\<close>, \<^verbatim>\<open>/quiz\<close>, \<^verbatim>\<open>/qa\<close>, \<^verbatim>\<open>/chat\<close> and \<^verbatim>\<open>/flashcards\<close>. The result
  is the response the route returns at once, or \<open>None\<close> when it goes on, and the table.
\<close>

definition usage_gate :: "env \<Rightarrow> nat \<Rightarrow> users \<Rightarrow> response option \<times> users" where
  "usage_gate e userId db =
     (case db userId of
        None \<Rightarrow> (Some \<lparr>status = 404, json_body = ErrorBody ''User not found''\<rparr>, db)
      | Some user \<Rightarrow>
          if enhancements_used user \<ge> enhancements_limit user
          then (Some \<lparr>status = 403,
                       json_body = LimitReachedBody ''Daily enhancement limit reached''
                         (enhancements_used user) (enhancements_limit user)\<rparr>, db)
          else (case incrementUsage e userId db of
                  (incrementResult, db') \<Rightarrow>
                    if \<not> success incrementResult
                    then (Some \<lparr>status = 403,
                                 json_body = IncrementFailedBody
                                   (or_default (error incrementResult) ''Failed to increment usage'')
                                   (usage incrementResult)\<rparr>, db')
                    else (None, db')))"

text \<open>The usage check made \<open>n\<close> times in a row: the outcomes, in order, and the table.\<close>

fun usage_gate_times :: "nat \<Rightarrow> env \<Rightarrow> nat \<Rightarrow> users \<Rightarrow> response option list \<times> users" where
  "usage_gate_times 0 e userId db = ([], db)"
| "usage_gate_times (Suc n) e userId db =
     (case usage_gate e userId db of
        (r, db') \<Rightarrow> (case usage_gate_times n e userId db' of
                       (rs, db'') \<Rightarrow> (r # rs, db'')))"

subsection \<open>Two requests in flight\<close>

text \<open>
  The usage check has two awaited calls, the \<^verbatim>\<open>SELECT\<close> and \<^verbatim>\<open>incrementUsage\<close>; between
  them the event loop can run a step of another request. \<open>usage_select\<close> is the
  \<^verbatim>\<open>SELECT\<close> with the tests on its result (\<open>Some\<close> is the response returned at once),
  \<open>usage_increment\<close> is the call of \<^verbatim>\<open>incrementUsage\<close> with the test on its result. Each
  is one step on the table.
\<close>

definition usage_select :: "nat \<Rightarrow> users \<Rightarrow> response option" where
  "usage_select userId db =
     (case db userId of
        None \<Rightarrow> Some \<lparr>status = 404, json_body = ErrorBody ''User not found''\<rparr>
      | Some user \<Rightarrow>
          if enhancements_used user \<ge> enhancements_limit user
          then Some \<lparr>status = 403,
                      json_body = LimitReachedBody ''Daily enhancement limit reached''
                        (enhancements_used user) (enhancements_limit user)\<rparr>
          else None)"

definition usage_increment :: "env \<Rightarrow> nat \<Rightarrow> users \<Rightarrow> response option \<times> users" where
  "usage_increment e userId db =
     (case incrementUsage e userId db of
        (incrementResult, db') \<Rightarrow>
          if \<not> success incrementResult
          then (Some \<lparr>status = 403,
                       json_body = IncrementFailedBody
                         (or_default (error incrementResult) ''Failed to increment usage'')
                         (usage incrementResult)\<rparr>, db')
          else (None, db'))"

text \<open>
  Where a request is in its usage check: before the \<^verbatim>\<open>SELECT\<close>, before
  \<^verbatim>\<open>incrementUsage\<close>, or through with it, refused with a response or passed (\<open>None\<close>).
\<close>

datatype request_state = AtSelect | AtIncrement | Finished "response option"

fun request_step :: "env \<Rightarrow> nat \<Rightarrow> request_state \<Rightarrow> users \<Rightarrow> request_state \<times> users" where
  "request_step e userId AtSelect db =
     (case usage_select userId db of
        Some r \<Rightarrow> (Finished (Some r), db)
      | None \<Rightarrow> (AtIncrement, db))"
| "request_step e userId AtIncrement db =
     (case usage_increment e userId db of (r, db') \<Rightarrow> (Finished r, db'))"
| "request_step e userId (Finished r) db = (Finished r, db)"

text \<open>
  Two requests of the same user on the same table, run under a schedule: each entry says
  which of the two takes its next step (\<open>True\<close> the first one). A request that is through
  does nothing when it is scheduled.
\<close>

fun run_schedule ::
  "env \<Rightarrow> nat \<Rightarrow> bool list \<Rightarrow> request_state \<times> request_state \<times> users
     \<Rightarrow> request_state \<times> request_state \<times> users" where
  "run_schedule e userId [] c = c"
| "run_schedule e userId (first # sched) (a, b, db) =
     (if first
      then (case request_step e userId a db of
              (a', db') \<Rightarrow> run_schedule e userId sched (a', b, db'))
      else (case request_step e userId b db of
              (b', db') \<Rightarrow> run_schedule e userId sched (a, b', db')))"


text \<open>
  The two refusals a request can meet when the counter of row \<open>r\<close> stands at the limit:
  the route's own, after its \<^verbatim>\<open>SELECT\<close>, and the one it makes of the QuotaExceeded
  failure of \<open>incrementIfAllowed\<close>. Both carry the counters.
\<close>

definition refused_by_route :: "user_row \<Rightarrow> response" where
  "refused_by_route r =
     \<lparr>status = 403,
      json_body = LimitReachedBody ''Daily enhancement limit reached''
        (enhancements_limit r) (enhancements_limit r)\<rparr>"

definition refused_by_helper :: "user_row \<Rightarrow> response" where
  "refused_by_helper r =
     \<lparr>status = 403,
      json_body = IncrementFailedBody ''QuotaExceeded''
        (Some \<lparr>enhancementsUsed = enhancements_limit r,
                enhancementsLimit = enhancements_limit r\<rparr>)\<rparr>"

text \<open>
  The configurations two requests can be in when they start with one slot left on row \<open>r\<close>
  of table \<open>db\<close>: nobody has incremented yet and the table is \<open>db\<close>, or one of them has
  passed, the counter is at the limit, and the other is still on its way or refused.
\<close>

definition at_limit :: "users \<Rightarrow> nat \<Rightarrow> user_row \<Rightarrow> users" where
  "at_limit db userId r = db(userId \<mapsto> r\<lparr>enhancements_used := enhancements_limit r\<rparr>)"

definition on_the_way :: "user_row \<Rightarrow> request_state \<Rightarrow> bool" where
  "on_the_way r s =
     (s = AtSelect \<or> s = AtIncrement
      \<or> s = Finished (Some (refused_by_route r)) \<or> s = Finished (Some (refused_by_helper r)))"

definition one_slot_config ::
  "users \<Rightarrow> nat \<Rightarrow> user_row \<Rightarrow> request_state \<times> request_state \<times> users \<Rightarrow> bool" where
  "one_slot_config db userId r c =
     (case c of (a, b, db') \<Rightarrow>
        (db' = db \<and> (a = AtSelect \<or> a = AtIncrement) \<and> (b = AtSelect \<or> b = AtIncrement))
        \<or> (db' = at_limit db userId r
            \<and> ((a = Finished None \<and> on_the_way r b) \<or> (b = Finished None \<and> on_the_way r a))))"

text \<open>
  \<^verbatim>\<open>usage\<close> of a success response, read back from the table after the provider call. A
  missing row makes \<^verbatim>\<open>rows[0]\<close> undefined and the property access throw.
\<close>

definition updated_usage :: "users \<Rightarrow> nat \<Rightarrow> string + int \<times> int \<times> int" where
  "updated_usage db userId =
     (case db userId of
        None \<Rightarrow> Inl ''Cannot read properties of undefined (reading 'enhancements_used')''
      | Some updatedUsage \<Rightarrow>
          Inr (enhancements_used updatedUsage, enhancements_limit updatedUsage,
               max 0 (enhancements_limit updatedUsage - enhancements_used updatedUsage)))"

text \<open>The \<^verbatim>\<open>catch\<close> of a route: status 500 with \<^verbatim>\<open>error.message || fallback\<close>.\<close>

definition caught :: "string \<Rightarrow> string \<Rightarrow> response" where
  "caught msg fallback =
     \<lparr>status = 500, json_body = ErrorBody (if msg = [] then fallback else msg)\<rparr>"

subsection \<open>POST /api/summarize\<close>

record summarize_request =
  req_transcript :: "string option"
  req_text :: "string option"
  req_content :: "string option"
  req_contentType :: "string option"

definition validContentTypes :: "string list" where
  "validContentTypes = [''video'', ''webpage'', ''pdf'']"

text \<open>\<^verbatim>\<open>transcript || req.body.text || req.body.content\<close>.\<close>

definition content_text :: "summarize_request \<Rightarrow> string option" where
  "content_text req = js_or (js_or (req_transcript req) (req_text req)) (req_content req)"

text \<open>
  Everything the route does before it calls the provider: \<open>Inl\<close> is an early response,
  \<open>Inr\<close> the content type, the cleaned content and the table with which the provider
  is then called.
\<close>

definition summarize_prepare ::
  "env \<Rightarrow> nat \<Rightarrow> summarize_request \<Rightarrow> users \<Rightarrow> response \<times> users + string \<times> string \<times> users" where
  "summarize_prepare e userId req db =
     (let type = or_default (req_contentType req) ''video'' in
      if type \<notin> set validContentTypes
      then Inl (\<lparr>status = 400, json_body = ErrorBody
                  ''Invalid contentType. Must be one of: video, webpage, pdf''\<rparr>, db)
      else (case content_text req of
              None \<Rightarrow> Inl (\<lparr>status = 400, json_body = ErrorBody ''Content text is required''\<rparr>, db)
            | Some contentText \<Rightarrow>
                if contentText = []
                then Inl (\<lparr>status = 400, json_body = ErrorBody ''Content text is required''\<rparr>, db)
                else (case usage_gate e userId (resetDailyUsageIfNeeded e userId db) of
                        (Some r, db') \<Rightarrow> Inl (r, db')
                      | (None, db') \<Rightarrow>
                          (let cleanContent = clean_content type contentText
                           in if length cleanContent < 10
                              then Inl (\<lparr>status = 400, json_body = ErrorBody
                                          ''Content is too short or empty''\<rparr>, db')
                              else Inr (type, cleanContent, db')))))"

text \<open>What the route does with the outcome of the provider call.\<close>

definition summarize_respond :: "nat \<Rightarrow> string \<Rightarrow> string + string \<Rightarrow> users \<Rightarrow> response \<times> users" where
  "summarize_respond userId type outcome db =
     (case outcome of
        Inl msg \<Rightarrow> (caught msg ''Failed to generate summary'', db)
      | Inr summary \<Rightarrow>
          (case updated_usage db userId of
             Inl msg \<Rightarrow> (caught msg ''Failed to generate summary'', db)
           | Inr (u, l, r) \<Rightarrow> (\<lparr>status = 200, json_body = SummaryBody summary type u l r\<rparr>, db)))"

definition summarize :: "env \<Rightarrow> nat \<Rightarrow> summarize_request \<Rightarrow> users \<Rightarrow> response \<times> users" where
  "summarize e userId req db =
     (case summarize_prepare e userId req db of
        Inl early \<Rightarrow> early
      | Inr (type, cleanContent, db') \<Rightarrow>
          summarize_respond userId type (callOpenAI e cleanContent) db')"

subsection \<open>POST /api/flashcards\<close>

text \<open>
  Values as \<^verbatim>\<open>JSON.parse\<close> returns them are of type \<open>json\<close>; an object is the list of
  its properties, each key once. \<open>get_prop v k\<close> is \<^verbatim>\<open>v[k]\<close> for the four property names
  the route reads (\<^verbatim>\<open>question\<close>, \<^verbatim>\<open>front\<close>, \<^verbatim>\<open>answer\<close>, \<^verbatim>\<open>back\<close>), none of which a
  string, a number, a boolean or an array has: \<open>None\<close> is \<^verbatim>\<open>undefined\<close>.
\<close>

fun truthy :: "json \<Rightarrow> bool" where
  "truthy JNull = False"
| "truthy (JBool b) = b"
| "truthy (JNum n) = (n \<noteq> 0)"
| "truthy (JStr s) = (s \<noteq> [])"
| "truthy (JArr _) = True"
| "truthy (JObj _) = True"

definition get_prop :: "json \<Rightarrow> string \<Rightarrow> json option" where
  "get_prop v k = (case v of JObj kvs \<Rightarrow> map_of kvs k | _ \<Rightarrow> None)"

text \<open>\<^verbatim>\<open>a || b\<close> on values that may be \<^verbatim>\<open>undefined\<close>.\<close>

definition or_else :: "json option \<Rightarrow> json option \<Rightarrow> json option" where
  "or_else a b = (case a of None \<Rightarrow> b | Some v \<Rightarrow> if truthy v then a else b)"

definition is_truthy :: "json option \<Rightarrow> bool" where
  "is_truthy a = (case a of None \<Rightarrow> False | Some v \<Rightarrow> truthy v)"

text \<open>
  The match of \<^verbatim>\<open>/\[[\s\S]*\]/\<close>: from the first \<^verbatim>\<open>[\<close> to the last \<^verbatim>\<open>]\<close> after it; \<open>None\<close>
  when there is no \<^verbatim>\<open>[\<close> or no \<^verbatim>\<open>]\<close> after the first one.
\<close>

definition match_json_array :: "string \<Rightarrow> string option" where
  "match_json_array response =
     (case dropWhile (\<lambda>c. c \<noteq> CHR ''['') response of
        [] \<Rightarrow> None
      | c # r \<Rightarrow>
          (case rev (dropWhile (\<lambda>c. c \<noteq> CHR '']'') (rev r)) of
             [] \<Rightarrow> None
           | m \<Rightarrow> Some (c # m)))"

text \<open>\<^verbatim>\<open>s.split(sep)\<close> for a separator of one character.\<close>

fun split_on :: "char \<Rightarrow> string \<Rightarrow> string list" where
  "split_on sep [] = [[]]"
| "split_on sep (c # cs) =
     (if c = sep then [] # split_on sep cs
      else (case split_on sep cs of
              [] \<Rightarrow> [[c]]
            | l # ls \<Rightarrow> (c # l) # ls))"

text \<open>A number in a template string, for natural numbers.\<close>

fun string_of_nat :: "nat \<Rightarrow> string" where
  "string_of_nat n =
     (if n < 10 then [''0123456789'' ! n]
      else string_of_nat (n div 10) @ [''0123456789'' ! (n mod 10)])"

declare string_of_nat.simps [simp del]

text \<open>The cards the \<^verbatim>\<open>catch\<close> block makes from the lines of the response.\<close>

definition fallback_card :: "nat \<times> string \<Rightarrow> json" where
  "fallback_card p =
     (case p of (index, line) \<Rightarrow>
        JObj [(''question'', JStr (''Question '' @ string_of_nat (index + 1))),
              (''answer'', JStr (trim line))])"

definition fallback_cards :: "string \<Rightarrow> json" where
  "fallback_cards response =
     (let lines = filter (\<lambda>line. trim line \<noteq> []) (split_on (CHR 0x0A) response)
      in JArr (map fallback_card (enumerate 0 (take 10 lines))))"

text \<open>
  The \<^verbatim>\<open>try\<close> block: \<^verbatim>\<open>JSON.parse\<close> of the match if there is one, else of the whole
  response; \<open>None\<close> when \<^verbatim>\<open>JSON.parse\<close> throws.
\<close>

definition parse_attempt :: "(string \<Rightarrow> json option) \<Rightarrow> string \<Rightarrow> json option" where
  "parse_attempt parse response =
     (case match_json_array response of
        Some m \<Rightarrow> parse m
      | None \<Rightarrow> parse response)"

text \<open>The value of \<^verbatim>\<open>flashcards\<close> after the \<^verbatim>\<open>try\<close> and its \<^verbatim>\<open>catch\<close>.\<close>

definition parse_response :: "(string \<Rightarrow> json option) \<Rightarrow> string \<Rightarrow> json" where
  "parse_response parse response =
     (case parse_attempt parse response of
        Some v \<Rightarrow> v
      | None \<Rightarrow> fallback_cards response)"

text \<open>The filter and the map of the validation.\<close>

definition valid_card :: "json \<Rightarrow> bool" where
  "valid_card c =
     (truthy c
      \<and> is_truthy (or_else (get_prop c ''question'') (get_prop c ''front''))
      \<and> is_truthy (or_else (get_prop c ''answer'') (get_prop c ''back'')))"

definition or_empty :: "json option \<Rightarrow> json" where
  "or_empty a = (case or_else a (Some (JStr [])) of None \<Rightarrow> JStr [] | Some v \<Rightarrow> v)"

definition to_card :: "json \<Rightarrow> flashcard" where
  "to_card c =
     \<lparr>question = or_empty (or_else (get_prop c ''question'') (get_prop c ''front'')),
      answer = or_empty (or_else (get_prop c ''answer'') (get_prop c ''back''))\<rparr>"

definition validate_flashcards :: "json \<Rightarrow> flashcard list" where
  "validate_flashcards v =
     (case v of
        JArr cards \<Rightarrow> take 10 (map to_card (filter valid_card cards))
      | _ \<Rightarrow> [])"

text \<open>From the provider's response to the list in the route's answer.\<close>

definition parse_flashcards :: "(string \<Rightarrow> json option) \<Rightarrow> string \<Rightarrow> flashcard list" where
  "parse_flashcards parse response = validate_flashcards (parse_response parse response)"

text \<open>
  The cards of the fallback as the specification describes them: one card for each of the
  first ten non-blank lines of the response, with the question \<^verbatim>\<open>Question i\<close>, numbered
  from 1, and the trimmed line as the answer.
\<close>

definition naive_card :: "nat \<times> string \<Rightarrow> flashcard" where
  "naive_card p =
     \<lparr>question = JStr (''Question '' @ string_of_nat (fst p + 1)), answer = JStr (trim (snd p))\<rparr>"

definition naive_cards :: "string \<Rightarrow> flashcard list" where
  "naive_cards response =
     map naive_card
       (enumerate 0 (take 10 (filter (\<lambda>line. trim line \<noteq> []) (split_on (CHR 0x0A) response))))"

record flashcards_request =
  fc_contentType :: "string option"
  fc_transcript :: "string option"
  fc_text :: "string option"

definition flashcards_prepare ::
  "env \<Rightarrow> nat \<Rightarrow> flashcards_request \<Rightarrow> users \<Rightarrow> response \<times> users + string \<times> string \<times> users" where
  "flashcards_prepare e userId req db =
     (let type = or_default (fc_contentType req) ''video'';
          contentText = (if type = ''video'' then or_default (fc_transcript req) []
                         else or_default (fc_text req) [])
      in if contentText = []
         then Inl (\<lparr>status = 400, json_body = ErrorBody ''Content text is required''\<rparr>, db)
         else (case usage_gate e userId (resetDailyUsageIfNeeded e userId db) of
                 (Some r, db') \<Rightarrow> Inl (r, db')
               | (None, db') \<Rightarrow>
                   (let cleaned = clean_content type contentText;
                        cleanContent = (if length cleaned > 4000 then take 4000 cleaned else cleaned)
                    in if length cleanContent < 50
                       then Inl (\<lparr>status = 400, json_body = ErrorBody
                                   ''Content is too short to generate flashcards''\<rparr>, db')
                       else Inr (type, cleanContent, db'))))"

definition flashcards_respond ::
  "env \<Rightarrow> nat \<Rightarrow> string \<Rightarrow> string + string \<Rightarrow> users \<Rightarrow> response \<times> users" where
  "flashcards_respond e userId type outcome db =
     (case outcome of
        Inl msg \<Rightarrow> (caught msg ''Failed to generate flashcards'', db)
      | Inr response \<Rightarrow>
          (let flashcards = parse_flashcards (JSON_parse e) response
           in case updated_usage db userId of
                Inl msg \<Rightarrow> (caught msg ''Failed to generate flashcards'', db)
              | Inr (u, l, r) \<Rightarrow>
                  (\<lparr>status = 200, json_body = FlashcardsBody flashcards type u l r\<rparr>, db)))"

definition flashcards :: "env \<Rightarrow> nat \<Rightarrow> flashcards_request \<Rightarrow> users \<Rightarrow> response \<times> users" where
  "flashcards e userId req db =
     (case flashcards_prepare e userId req db of
        Inl early \<Rightarrow> early
      | Inr (type, cleanContent, db') \<Rightarrow>
          flashcards_respond e userId type (callOpenAI e cleanContent) db')"

section \<open>Sample inputs\<close>

definition q_right :: quiz_question where
  "q_right = \<lparr>active = False, selected = Some ''a'', correct_answer = Some ''a''\<rparr>"

definition q_wrong :: quiz_question where
  "q_wrong = \<lparr>active = False, selected = Some ''b'', correct_answer = Some ''a''\<rparr>"

definition q_blank :: quiz_question where
  "q_blank = \<lparr>active = False, selected = None, correct_answer = Some ''a''\<rparr>"

definition three_questions :: "quiz_question list" where
  "three_questions = [q_blank, q_blank, q_blank]"

text \<open>
  What \<^verbatim>\<open>new URL\<close> gives for three inputs: a watch page, a page without a \<^verbatim>\<open>v\<close>
  parameter, and a string that is not a URL (as every other string here).
\<close>

definition sample_new_URL :: "string \<Rightarrow> url option" where
  "sample_new_URL u =
     (if u = ''https://www.youtube.com/watch?v=dQw4w9WgXcQ&t=10s''
      then Some \<lparr>searchParams = [(''v'', ''dQw4w9WgXcQ''), (''t'', ''10s'')]\<rparr>
      else if u = ''https://example.com/article?id=7''
      then Some \<lparr>searchParams = [(''id'', ''7'')]\<rparr>
      else None)"

text \<open>
  A deployment whose helpers are the ones modelled from the specification, at time \<open>now\<close>,
  whose provider always answers with \<open>r\<close>, and whose \<^verbatim>\<open>JSON.parse\<close> is \<open>parse\<close>.
\<close>

definition sample_env :: "int \<Rightarrow> fetch_result \<Rightarrow> (string \<Rightarrow> json option) \<Rightarrow> env" where
  "sample_env now r parse =
     \<lparr>resetDailyUsageIfNeeded = resetIfNeeded now,
      incrementUsage = incrementIfAllowed,
      OPENAI_API_KEY = Some ''sk-sample'',
      fetch = (\<lambda>_. r),
      JSON_parse = parse\<rparr>"

definition sample_user :: "subscription \<Rightarrow> int \<Rightarrow> user_row" where
  "sample_user plan used =
     \<lparr>enhancements_used = used, enhancements_limit = 10, last_reset_at = 0,
      subscription_status = plan\<rparr>"

definition sample_users :: "user_row \<Rightarrow> users" where
  "sample_users r = Map.empty(42 \<mapsto> r)"

definition sample_request :: "string \<Rightarrow> summarize_request" where
  "sample_request transcript =
     \<lparr>req_transcript = Some transcript, req_text = None, req_content = None,
      req_contentType = None\<rparr>"

text \<open>
  A provider response for the flashcards route: the text of a JSON array with one card,
  and the value \<^verbatim>\<open>JSON.parse\<close> gives for it. \<open>sample_JSON_parse\<close> is \<^verbatim>\<open>JSON.parse\<close> on the
  texts the examples pass to it: the text of the array parses, and the others, which are
  prose or an array with prose inside or after it, make it throw.
\<close>

definition sample_cards_inner :: string where
  \<open>sample_cards_inner =
     ''{"question":"What is photosynthesis?","answer":"How plants make food."}''\<close>

definition sample_cards_text :: string where
  "sample_cards_text = ''['' @ sample_cards_inner @ '']''"

definition sample_cards :: "json list" where
  "sample_cards =
     [JObj [(''question'', JStr ''What is photosynthesis?''),
            (''answer'', JStr ''How plants make food.'')]]"

definition sample_JSON_parse :: "string \<Rightarrow> json option" where
  "sample_JSON_parse s = (if s = sample_cards_text then Some (JArr sample_cards) else None)"

text \<open>The array in a code fence after a sentence; the array after prose that has brackets.\<close>

definition fenced_response :: string where
  "fenced_response =
     ''Here are your flashcards: ```json'' @ [CHR 0x0A] @ sample_cards_text @ [CHR 0x0A] @ ''```''"

definition bracket_response :: string where
  "bracket_response = ''Here are your flashcards [1 of 1]: '' @ sample_cards_text"

definition prose_response :: string where
  "prose_response =
     ''Plants make food from light.'' @ [CHR 0x0A, CHR 0x0A] @ '' They need water too. ''"

text \<open>
  For comparison only: a helper that adds 1 to the counter without any test, and the
  deployment that uses it.
\<close>

definition incrementUnconditionally :: "nat \<Rightarrow> users \<Rightarrow> increment_result \<times> users" where
  "incrementUnconditionally userId db =
     (case db userId of
        None \<Rightarrow> (\<lparr>success = False, error = Some ''NotFound'', usage = None\<rparr>, db)
      | Some r \<Rightarrow>
          (\<lparr>success = True, error = None,
            usage = Some \<lparr>enhancementsUsed = enhancements_used r + 1,
                          enhancementsLimit = enhancements_limit r\<rparr>\<rparr>,
           db(userId \<mapsto> r\<lparr>enhancements_used := enhancements_used r + 1\<rparr>)))"

definition unchecked_env :: env where
  "unchecked_env =
     (sample_env 3600000 (HttpOk ''A summary.'') (\<lambda>_. None))
       \<lparr>incrementUsage := incrementUnconditionally\<rparr>"

section \<open>Properties of the quiz navigator and of scoring\<close>

subsection \<open>Navigation\<close>

lemma item_in_range: "0 \<le> i \<Longrightarrow> i < int (length xs) \<Longrightarrow> item xs i = Some (xs ! nat i)"
  by (simp add: item_def)

lemma length_set_active: "length (set_active qs i b) = length qs"
  by (simp add: set_active_def split: option.split)

lemma clamp_next:
  fixes c n :: int
  assumes "0 \<le> c" "c < n"
  shows "max 0 (min (n - 1) (c + 1)) = min (n - 1) (c + 1)"
  using assms by simp

lemma clamp_previous:
  fixes c n :: int
  assumes "0 \<le> c" "c < n"
  shows "max 0 (min (n - 1) (c + - 1)) = max 0 (c - 1)"
  using assms by simp

lemma navigateQuestions_index:
  assumes "questions s = Some qs"
  shows "currentQuestionIndex (navigateQuestions d s) =
           max 0 (min (totalQuestions s - 1) (currentQuestionIndex s + d))"
  using assms by (simp add: navigateQuestions_def Let_def)

lemma sidebar_navigateQuestions_ok:
  assumes "questions s = Some qs" "totalQuestions s = int (length qs)"
    "0 \<le> currentQuestionIndex s" "currentQuestionIndex s < int (length qs)"
  shows "sidebar_navigateQuestions d s = Inr (navigateQuestions d s)"
proof -
  let ?idx = "max 0 (min (int (length qs) - 1) (currentQuestionIndex s + d))"
  let ?qs1 = "set_active qs (currentQuestionIndex s) False"
  have cur: "item qs (currentQuestionIndex s) \<noteq> None"
    using assms(3,4) by (simp add: item_def)
  have "0 \<le> ?idx" "?idx < int (length ?qs1)"
    using assms(3,4) unfolding length_set_active by linarith+
  then have nxt: "item ?qs1 ?idx \<noteq> None"
    by (simp add: item_def)
  show ?thesis
    using assms(1,2) cur nxt
    by (auto simp: sidebar_navigateQuestions_def navigateQuestions_def Let_def
        split: option.splits)
qed

text \<open>
  C7. For a quiz of N questions and a cursor in [0, N-1], one step forward
  (\<^verbatim>\<open>navigateQuestions(1)\<close>) moves the cursor to min(N-1, current+1) and one step back
  (\<^verbatim>\<open>navigateQuestions(-1)\<close>) to max(0, current-1); at the last question forward leaves
  it where it is and at the first question back leaves it at 0; the cursor stays in
  [0, N-1], and the variant of sidebar.js, which can throw, does not throw and agrees.
\<close>

theorem quiz_navigation_clamped:
  assumes "questions s = Some qs"
    and "totalQuestions s = int (length qs)"
    and "0 \<le> currentQuestionIndex s"
    and "currentQuestionIndex s < int (length qs)"
  shows "currentQuestionIndex (navigateQuestions 1 s)
           = min (int (length qs) - 1) (currentQuestionIndex s + 1)
       \<and> currentQuestionIndex (navigateQuestions (- 1) s)
           = max 0 (currentQuestionIndex s - 1)
       \<and> (currentQuestionIndex s = 0 \<longrightarrow> currentQuestionIndex (navigateQuestions (- 1) s) = 0)
       \<and> (currentQuestionIndex s = int (length qs) - 1 \<longrightarrow>
            currentQuestionIndex (navigateQuestions 1 s) = int (length qs) - 1)
       \<and> (\<forall>d \<in> {1, - 1}.
            0 \<le> currentQuestionIndex (navigateQuestions d s)
            \<and> currentQuestionIndex (navigateQuestions d s) < int (length qs)
            \<and> totalQuestions (navigateQuestions d s) = int (length qs)
            \<and> map_option length (questions (navigateQuestions d s)) = Some (length qs)
            \<and> sidebar_navigateQuestions d s = Inr (navigateQuestions d s))"
proof -
  have nxt: "currentQuestionIndex (navigateQuestions 1 s)
      = min (int (length qs) - 1) (currentQuestionIndex s + 1)"
    using assms clamp_next [of "currentQuestionIndex s" "int (length qs)"]
    by (simp add: navigateQuestions_index)
  have prv: "currentQuestionIndex (navigateQuestions (- 1) s)
      = max 0 (currentQuestionIndex s - 1)"
    using assms clamp_previous [of "currentQuestionIndex s" "int (length qs)"]
    by (simp add: navigateQuestions_index)
  have tot: "totalQuestions (navigateQuestions d s) = int (length qs)" for d
    using assms(1,2) by (simp add: navigateQuestions_def Let_def)
  have len: "map_option length (questions (navigateQuestions d s)) = Some (length qs)" for d
    using assms(1) by (simp add: navigateQuestions_def Let_def length_set_active)
  have sb: "sidebar_navigateQuestions d s = Inr (navigateQuestions d s)" for d
    using assms by (rule sidebar_navigateQuestions_ok)
  show ?thesis
    using nxt prv tot len sb assms(3,4) by auto
qed


theorem quiz_navigation_clamped_witness:
  "questions \<lparr>questions = Some three_questions, currentQuestionIndex = 2, totalQuestions = 3\<rparr>
     = Some three_questions
   \<and> currentQuestionIndex (navigateQuestions 1
        \<lparr>questions = Some three_questions, currentQuestionIndex = 2, totalQuestions = 3\<rparr>) = 2
   \<and> currentQuestionIndex (navigateQuestions (- 1)
        \<lparr>questions = Some three_questions, currentQuestionIndex = 2, totalQuestions = 3\<rparr>) = 1"
  using quiz_navigation_clamped
    [of "\<lparr>questions = Some three_questions, currentQuestionIndex = 2, totalQuestions = 3\<rparr>"
        three_questions]
  by (simp add: three_questions_def)

text \<open>
  The example of the specification: in a quiz of three questions, back at the first
  question stays at index 0, and forward five times from the first question ends at index 2.
\<close>

lemma previous_at_first:
  "currentQuestionIndex (navigateQuestions (- 1)
     (initializeQuizNavigation False
        \<lparr>questions = Some three_questions, currentQuestionIndex = 0, totalQuestions = 0\<rparr>)) = 0"
  by (simp add: initializeQuizNavigation_def navigateQuestions_def set_active_def item_def
      three_questions_def Let_def)

lemma next_five_times:
  "currentQuestionIndex (navigate_all [1, 1, 1, 1, 1]
     (initializeQuizNavigation False
        \<lparr>questions = Some three_questions, currentQuestionIndex = 0, totalQuestions = 0\<rparr>)) = 2"
  by (simp add: initializeQuizNavigation_def navigateQuestions_def set_active_def item_def
      three_questions_def Let_def)

text \<open>
  The states the theorem speaks of are the ones the controller is in: initialisation
  establishes them and every run of navigation steps keeps them.
\<close>

lemma cursor_ok_initialize:
  assumes "questions s = Some qs" and "qs \<noteq> []"
  shows "cursor_ok (length qs) (initializeQuizNavigation wrapped s)"
  using assms
  by (simp add: cursor_ok_def initializeQuizNavigation_def length_set_active Let_def)

lemma cursor_ok_navigate:
  assumes "cursor_ok n s"
  shows "cursor_ok n (navigateQuestions d s)"
proof -
  from assms obtain qs where qs: "questions s = Some qs" "length qs = n"
    by (auto simp: cursor_ok_def)
  have "0 \<le> max 0 (min (int n - 1) (currentQuestionIndex s + d))"
    and "max 0 (min (int n - 1) (currentQuestionIndex s + d)) < int n"
    using assms by (auto simp: cursor_ok_def)
  then show ?thesis
    using assms qs
    by (simp add: cursor_ok_def navigateQuestions_def Let_def length_set_active)
qed

lemma cursor_ok_navigate_all:
  assumes "cursor_ok n s"
  shows "cursor_ok n (navigate_all ds s)"
  using assms by (induction ds arbitrary: s) (simp_all add: cursor_ok_navigate)

subsection \<open>Scoring\<close>

lemma fold_count_step: "fold count_step qs n = n + tally qs"
  by (induction qs arbitrary: n)
     (auto simp: tally_def count_step_def answered_correctly_def split: option.splits)

lemma tally_le: "tally qs \<le> length qs"
  by (simp add: tally_def)

lemma percentage_three:
  assumes "c \<le> 3"
  shows "(percentage c 3 = Some 100) = (c = 3)"
proof -
  from assms consider "c = 0" | "c = 1" | "c = 2" | "c = 3" by linarith
  then show ?thesis
    by cases (simp_all add: percentage_def round_def)
qed

text \<open>
  C8. For a quiz of three questions, \<^verbatim>\<open>checkQuizAnswers\<close> counts the questions whose
  selected choice equals the recorded correct choice and reports exactly the tier of that
  count: 3 is win, 2 is ok, 1 is partial, 0 is fail.
\<close>

theorem quiz_scoring_tiers:
  assumes "length qs = 3"
  shows "checkQuizAnswers (Some qs) = Some (showQuizResultsDialog (tally qs) 3)
       \<and> score_correct (showQuizResultsDialog (tally qs) 3) = tally qs
       \<and> tier (showQuizResultsDialog (tally qs) 3) = spec_tier (tally qs)"
proof -
  have "tally qs \<le> 3" using tally_le [of qs] assms by simp
  then show ?thesis
    using assms
    by (simp add: checkQuizAnswers_def showQuizResultsDialog_def fold_count_step
        percentage_three spec_tier_def Let_def)
qed

lemma tally_sample: "tally [q_right, q_wrong, q_right] = 2"
  by (simp add: tally_def answered_correctly_def q_right_def q_wrong_def)

theorem quiz_scoring_tiers_witness:
  "length [q_right, q_wrong, q_right] = 3
   \<and> checkQuizAnswers (Some [q_right, q_wrong, q_right]) = Some (showQuizResultsDialog 2 3)
   \<and> tier (showQuizResultsDialog 2 3) = ''ok''"
  using quiz_scoring_tiers [of "[q_right, q_wrong, q_right]"]
  unfolding tally_sample by (simp add: spec_tier_def)

text \<open>The four outcomes of the specification's end-to-end example.\<close>

lemma quiz_scoring_end_to_end:
  "map_option tier (checkQuizAnswers (Some [q_right, q_right, q_right])) = Some ''win''"
  "map_option tier (checkQuizAnswers (Some [q_right, q_wrong, q_right])) = Some ''ok''"
  "map_option tier (checkQuizAnswers (Some [q_blank, q_wrong, q_right])) = Some ''partial''"
  "map_option tier (checkQuizAnswers (Some [q_blank, q_wrong, q_wrong])) = Some ''fail''"
  by (simp_all add: checkQuizAnswers_def showQuizResultsDialog_def count_step_def
      percentage_def round_def q_right_def q_wrong_def q_blank_def Let_def)

section \<open>Properties of the generated-content cache\<close>

text \<open>
  C6. An entry written at time T under the key \<^verbatim>\<open>`${type}_${videoId}`\<close> is in the storage
  under that key; a read at any time t with t - T at most 24 hours returns the stored
  payload and leaves the storage as it is; a read more than 24 hours after T returns
  \<^verbatim>\<open>null\<close> and removes the entry.
\<close>

theorem cache_ttl:
  assumes "vid = Some v" and "v \<noteq> []"
  shows "saveGeneratedContent T vid type c st (cache_key type v)
           = Some \<lparr>content = c, timestamp = T, videoId = v\<rparr>
       \<and> (t - T \<le> CACHE_EXPIRY_TIME \<longrightarrow>
            loadGeneratedContent t vid type (saveGeneratedContent T vid type c st)
              = (Some c, saveGeneratedContent T vid type c st))
       \<and> (t - T > CACHE_EXPIRY_TIME \<longrightarrow>
            loadGeneratedContent t vid type (saveGeneratedContent T vid type c st)
              = (None, (saveGeneratedContent T vid type c st)(cache_key type v := None)))"
  using assms by (simp add: saveGeneratedContent_def loadGeneratedContent_def)

theorem cache_ttl_witness:
  "Some ''dQw4w9WgXcQ'' = Some ''dQw4w9WgXcQ'' \<and> ''dQw4w9WgXcQ'' \<noteq> []
   \<and> (1000 + (23 * 60 + 59) * 60 * 1000) - 1000 \<le> CACHE_EXPIRY_TIME
   \<and> fst (loadGeneratedContent (1000 + (23 * 60 + 59) * 60 * 1000) (Some ''dQw4w9WgXcQ'') ''summary''
        (saveGeneratedContent 1000 (Some ''dQw4w9WgXcQ'') ''summary'' ''<h4>Summary</h4>'' Map.empty))
       = Some ''<h4>Summary</h4>''
   \<and> (1000 + (24 * 60 + 1) * 60 * 1000) - 1000 > CACHE_EXPIRY_TIME
   \<and> fst (loadGeneratedContent (1000 + (24 * 60 + 1) * 60 * 1000) (Some ''dQw4w9WgXcQ'') ''summary''
        (saveGeneratedContent 1000 (Some ''dQw4w9WgXcQ'') ''summary'' ''<h4>Summary</h4>'' Map.empty))
       = None
   \<and> snd (loadGeneratedContent (1000 + (24 * 60 + 1) * 60 * 1000) (Some ''dQw4w9WgXcQ'') ''summary''
        (saveGeneratedContent 1000 (Some ''dQw4w9WgXcQ'') ''summary'' ''<h4>Summary</h4>'' Map.empty))
        ''summary_dQw4w9WgXcQ'' = None"
  using cache_ttl [where vid = "Some ''dQw4w9WgXcQ''" and v = "''dQw4w9WgXcQ''"
      and t = "1000 + (23 * 60 + 59) * 60 * 1000" and T = 1000 and type = "''summary''"
      and c = "''<h4>Summary</h4>''" and st = Map.empty]
    cache_ttl [where vid = "Some ''dQw4w9WgXcQ''" and v = "''dQw4w9WgXcQ''"
      and t = "1000 + (24 * 60 + 1) * 60 * 1000" and T = 1000 and type = "''summary''"
      and c = "''<h4>Summary</h4>''" and st = Map.empty]
  by (simp add: CACHE_EXPIRY_TIME_def cache_key_def)

subsection \<open>Content identity\<close>

lemma searchParams_get_absent:
  "name \<notin> fst ` set ps \<Longrightarrow> searchParams_get ps name = None"
  by (induction ps) (auto simp: searchParams_get_def)

lemma searchParams_get_first:
  "name \<notin> fst ` set pre \<Longrightarrow> searchParams_get (pre @ (name, x) # post) name = Some x"
  by (induction pre) (auto simp: searchParams_get_def)

text \<open>
  C10. \<^verbatim>\<open>getVideoId\<close> returns \<^verbatim>\<open>null\<close> when the URL cannot be parsed and when the parsed
  URL has no \<^verbatim>\<open>v\<close> parameter, and otherwise the value of the (first) \<^verbatim>\<open>v\<close> parameter;
  with a \<^verbatim>\<open>null\<close> identity \<^verbatim>\<open>saveGeneratedContent\<close> leaves the storage unchanged and
  \<^verbatim>\<open>loadGeneratedContent\<close> returns \<^verbatim>\<open>null\<close> without touching the storage.
\<close>

theorem video_id_and_null_identity:
  "(new_URL u = None \<longrightarrow> getVideoId new_URL u = None)
   \<and> (\<forall>urlObj. new_URL u = Some urlObj \<and> ''v'' \<notin> fst ` set (searchParams urlObj)
         \<longrightarrow> getVideoId new_URL u = None)
   \<and> (\<forall>urlObj pre x post.
         new_URL u = Some urlObj \<and> searchParams urlObj = pre @ (''v'', x) # post
         \<and> ''v'' \<notin> fst ` set pre
         \<longrightarrow> getVideoId new_URL u = Some x)
   \<and> saveGeneratedContent now None type c st = st
   \<and> loadGeneratedContent now None type st = (None, st)"
  by (auto simp: getVideoId_def saveGeneratedContent_def loadGeneratedContent_def
      searchParams_get_absent searchParams_get_first)

theorem video_id_and_null_identity_witness:
  "sample_new_URL ''not a url'' = None
   \<and> getVideoId sample_new_URL ''not a url'' = None
   \<and> sample_new_URL ''https://example.com/article?id=7'' = Some \<lparr>searchParams = [(''id'', ''7'')]\<rparr>
   \<and> ''v'' \<notin> fst ` set [(''id'', ''7'')]
   \<and> getVideoId sample_new_URL ''https://example.com/article?id=7'' = None
   \<and> sample_new_URL ''https://www.youtube.com/watch?v=dQw4w9WgXcQ&t=10s''
       = Some \<lparr>searchParams = [] @ (''v'', ''dQw4w9WgXcQ'') # [(''t'', ''10s'')]\<rparr>
   \<and> ''v'' \<notin> fst ` set ([] :: (string \<times> string) list)
   \<and> getVideoId sample_new_URL ''https://www.youtube.com/watch?v=dQw4w9WgXcQ&t=10s''
       = Some ''dQw4w9WgXcQ''"
proof -
  note all = video_id_and_null_identity [where new_URL = sample_new_URL and now = 0
      and type = "''summary''" and c = "''x''" and st = Map.empty]
  have 1: "sample_new_URL ''not a url'' = None"
    by (simp add: sample_new_URL_def)
  have 2: "sample_new_URL ''https://example.com/article?id=7''
       = Some \<lparr>searchParams = [(''id'', ''7'')]\<rparr>"
    by (simp add: sample_new_URL_def)
  have 3: "sample_new_URL ''https://www.youtube.com/watch?v=dQw4w9WgXcQ&t=10s''
       = Some \<lparr>searchParams = [] @ (''v'', ''dQw4w9WgXcQ'') # [(''t'', ''10s'')]\<rparr>"
    by (simp add: sample_new_URL_def)
  have r1: "getVideoId sample_new_URL ''not a url'' = None"
    using all [where u = "''not a url''", THEN conjunct1] 1 by simp
  have r2: "getVideoId sample_new_URL ''https://example.com/article?id=7'' = None"
    using all [where u = "''https://example.com/article?id=7''",
        THEN conjunct2, THEN conjunct1, THEN spec, of "\<lparr>searchParams = [(''id'', ''7'')]\<rparr>"] 2
    by simp
  have r3: "getVideoId sample_new_URL ''https://www.youtube.com/watch?v=dQw4w9WgXcQ&t=10s''
       = Some ''dQw4w9WgXcQ''"
    using all [where u = "''https://www.youtube.com/watch?v=dQw4w9WgXcQ&t=10s''",
        THEN conjunct2, THEN conjunct2, THEN conjunct1, THEN spec, THEN spec, THEN spec, THEN spec,
        of "\<lparr>searchParams = [(''v'', ''dQw4w9WgXcQ''), (''t'', ''10s'')]\<rparr>" "[]"
           "''dQw4w9WgXcQ''" "[(''t'', ''10s'')]"] 3
    by simp
  show ?thesis using 1 2 3 r1 r2 r3 by simp
qed

section \<open>Properties of the generation routes\<close>

lemma usage_gate_at_limit:
  assumes "db userId = Some r" and "enhancements_used r \<ge> enhancements_limit r"
  shows "usage_gate e userId db =
           (Some \<lparr>status = 403,
                   json_body = LimitReachedBody ''Daily enhancement limit reached''
                     (enhancements_used r) (enhancements_limit r)\<rparr>, db)"
  using assms by (simp add: usage_gate_def)

lemma usage_gate_below_limit:
  assumes "incrementUsage e = incrementIfAllowed"
    and "db userId = Some r" and "enhancements_used r < enhancements_limit r"
  shows "usage_gate e userId db
         = (None, db(userId \<mapsto> r\<lparr>enhancements_used := enhancements_used r + 1\<rparr>))"
  using assms by (simp add: usage_gate_def incrementIfAllowed_def)

lemma usage_gate_times_below_limit:
  assumes "incrementUsage e = incrementIfAllowed"
  shows "db userId = Some r \<Longrightarrow> enhancements_used r + int n \<le> enhancements_limit r \<Longrightarrow>
         usage_gate_times n e userId db
         = (replicate n None, db(userId \<mapsto> r\<lparr>enhancements_used := enhancements_used r + int n\<rparr>))"
proof (induction n arbitrary: db r)
  case 0
  then show ?case by (simp add: map_upd_triv)
next
  case (Suc n)
  let ?r1 = "r\<lparr>enhancements_used := enhancements_used r + 1\<rparr>"
  let ?db1 = "db(userId \<mapsto> ?r1)"
  have step: "usage_gate e userId db = (None, ?db1)"
    using assms Suc.prems by (intro usage_gate_below_limit) auto
  have "usage_gate_times n e userId ?db1
        = (replicate n None, ?db1(userId \<mapsto> ?r1\<lparr>enhancements_used := enhancements_used ?r1 + int n\<rparr>))"
    using Suc.prems by (intro Suc.IH) auto
  moreover have "enhancements_used r + 1 + int n = enhancements_used r + int (Suc n)"
    by simp
  ultimately have rest: "usage_gate_times n e userId ?db1
        = (replicate n None, db(userId \<mapsto> r\<lparr>enhancements_used := enhancements_used r + int (Suc n)\<rparr>))"
    by simp
  show ?case
    by (simp only: usage_gate_times.simps step rest prod.case replicate_Suc)
qed

text \<open>
  C3. With the helper \<open>incrementIfAllowed\<close>, for a freemium user whose counter \<open>u\<close> is
  below the limit, the usage check of the routes passes \<open>limit - u\<close> times in a row and
  leaves the counter equal to the limit; the next check fails with status 403, reports the
  current counters (both equal to the limit) and leaves the table unchanged, and so does a
  direct call of \<open>incrementIfAllowed\<close>, which fails with QuotaExceeded and the same counters.
\<close>

theorem quota_monotonicity:
  assumes "incrementUsage e = incrementIfAllowed"
    and "db userId = Some r"
    and "subscription_status r = Freemium"
    and "enhancements_used r < enhancements_limit r"
  shows "usage_gate_times (nat (enhancements_limit r - enhancements_used r)) e userId db
           = (replicate (nat (enhancements_limit r - enhancements_used r)) None,
              db(userId \<mapsto> r\<lparr>enhancements_used := enhancements_limit r\<rparr>))
       \<and> usage_gate e userId (db(userId \<mapsto> r\<lparr>enhancements_used := enhancements_limit r\<rparr>))
           = (Some \<lparr>status = 403,
                    json_body = LimitReachedBody ''Daily enhancement limit reached''
                      (enhancements_limit r) (enhancements_limit r)\<rparr>,
              db(userId \<mapsto> r\<lparr>enhancements_used := enhancements_limit r\<rparr>))
       \<and> incrementIfAllowed userId (db(userId \<mapsto> r\<lparr>enhancements_used := enhancements_limit r\<rparr>))
           = (\<lparr>success = False, error = Some ''QuotaExceeded'',
               usage = Some \<lparr>enhancementsUsed = enhancements_limit r,
                             enhancementsLimit = enhancements_limit r\<rparr>\<rparr>,
              db(userId \<mapsto> r\<lparr>enhancements_used := enhancements_limit r\<rparr>))"
proof -
  let ?n = "nat (enhancements_limit r - enhancements_used r)"
  have n: "enhancements_used r + int ?n = enhancements_limit r"
    using assms(4) by simp
  have "usage_gate_times ?n e userId db
        = (replicate ?n None, db(userId \<mapsto> r\<lparr>enhancements_used := enhancements_used r + int ?n\<rparr>))"
    using assms(1,2) n by (intro usage_gate_times_below_limit) auto
  then have runs: "usage_gate_times ?n e userId db
        = (replicate ?n None, db(userId \<mapsto> r\<lparr>enhancements_used := enhancements_limit r\<rparr>))"
    using n by simp
  have last: "usage_gate e userId (db(userId \<mapsto> r\<lparr>enhancements_used := enhancements_limit r\<rparr>))
           = (Some \<lparr>status = 403,
                    json_body = LimitReachedBody ''Daily enhancement limit reached''
                      (enhancements_limit r) (enhancements_limit r)\<rparr>,
              db(userId \<mapsto> r\<lparr>enhancements_used := enhancements_limit r\<rparr>))"
    using usage_gate_at_limit
      [of "db(userId \<mapsto> r\<lparr>enhancements_used := enhancements_limit r\<rparr>)" userId
          "r\<lparr>enhancements_used := enhancements_limit r\<rparr>" e]
    by simp
  have direct: "incrementIfAllowed userId (db(userId \<mapsto> r\<lparr>enhancements_used := enhancements_limit r\<rparr>))
           = (\<lparr>success = False, error = Some ''QuotaExceeded'',
               usage = Some \<lparr>enhancementsUsed = enhancements_limit r,
                             enhancementsLimit = enhancements_limit r\<rparr>\<rparr>,
              db(userId \<mapsto> r\<lparr>enhancements_used := enhancements_limit r\<rparr>))"
    using assms(3) by (simp add: incrementIfAllowed_def)
  show ?thesis using runs last direct by simp
qed


theorem quota_monotonicity_witness:
  "incrementUsage (sample_env 3600000 (HttpOk ''A summary.'') (\<lambda>_. None)) = incrementIfAllowed
   \<and> sample_users (sample_user Freemium 7) 42 = Some (sample_user Freemium 7)
   \<and> subscription_status (sample_user Freemium 7) = Freemium
   \<and> enhancements_used (sample_user Freemium 7) < enhancements_limit (sample_user Freemium 7)
   \<and> usage_gate_times 3 (sample_env 3600000 (HttpOk ''A summary.'') (\<lambda>_. None)) 42
         (sample_users (sample_user Freemium 7))
       = ([None, None, None], sample_users (sample_user Freemium 10))
   \<and> usage_gate (sample_env 3600000 (HttpOk ''A summary.'') (\<lambda>_. None)) 42
         (sample_users (sample_user Freemium 10))
       = (Some \<lparr>status = 403,
                json_body = LimitReachedBody ''Daily enhancement limit reached'' 10 10\<rparr>,
          sample_users (sample_user Freemium 10))"
proof -
  have n: "nat (enhancements_limit (sample_user Freemium 7)
              - enhancements_used (sample_user Freemium 7)) = 3"
    by (simp add: sample_user_def)
  have upd: "(sample_users (sample_user Freemium 7))
      (42 \<mapsto> (sample_user Freemium 7)
         \<lparr>enhancements_used := enhancements_limit (sample_user Freemium 7)\<rparr>)
      = sample_users (sample_user Freemium 10)"
    by (simp add: sample_users_def sample_user_def)
  have lim: "enhancements_limit (sample_user Freemium 7) = 10"
    by (simp add: sample_user_def)
  have three: "replicate 3 None = [None, None, None :: response option]"
    by (simp add: numeral_3_eq_3)
  have h1: "incrementUsage (sample_env 3600000 (HttpOk ''A summary.'') (\<lambda>_. None))
      = incrementIfAllowed"
    by (simp add: sample_env_def)
  have h2: "sample_users (sample_user Freemium 7) 42 = Some (sample_user Freemium 7)"
    by (simp add: sample_users_def)
  have h3: "subscription_status (sample_user Freemium 7) = Freemium"
    by (simp add: sample_user_def)
  have h4: "enhancements_used (sample_user Freemium 7) < enhancements_limit (sample_user Freemium 7)"
    by (simp add: sample_user_def)
  note concl = quota_monotonicity
      [of "sample_env 3600000 (HttpOk ''A summary.'') (\<lambda>_. None)"
          "sample_users (sample_user Freemium 7)" 42 "sample_user Freemium 7",
       OF h1 h2 h3 h4, unfolded n upd, unfolded lim three]
  show ?thesis
    using h1 h2 h3 h4 concl by simp
qed

lemma summarize_prepare_at_limit:
  assumes "resetDailyUsageIfNeeded e userId db userId = Some r"
    and "enhancements_used r \<ge> enhancements_limit r"
    and "or_default (req_contentType req) ''video'' \<in> set validContentTypes"
    and "content_text req = Some contentText" and "contentText \<noteq> []"
  shows "summarize_prepare e userId req db =
           Inl (\<lparr>status = 403,
                  json_body = LimitReachedBody ''Daily enhancement limit reached''
                    (enhancements_used r) (enhancements_limit r)\<rparr>,
                resetDailyUsageIfNeeded e userId db)"
  using assms(3-5)
    usage_gate_at_limit [of "resetDailyUsageIfNeeded e userId db" userId r e, OF assms(1,2)]
  by (simp add: summarize_prepare_def Let_def)

text \<open>
  C2, as amended. A user whose counter has reached the limit when the route reads it, after
  the daily reset step, is refused with status 403 and the current counters, whatever the
  subscription status of the row: the limit check of the routes does not read it, and
  \<open>incrementUsage\<close> is not called (the table is as the reset step left it).
\<close>

theorem limit_check_ignores_plan:
  assumes "resetDailyUsageIfNeeded e userId db userId = Some r"
    and "enhancements_used r \<ge> enhancements_limit r"
    and "or_default (req_contentType req) ''video'' \<in> set validContentTypes"
    and "content_text req = Some contentText" and "contentText \<noteq> []"
  shows "usage_gate e userId (resetDailyUsageIfNeeded e userId db) =
           (Some \<lparr>status = 403,
                   json_body = LimitReachedBody ''Daily enhancement limit reached''
                     (enhancements_used r) (enhancements_limit r)\<rparr>,
            resetDailyUsageIfNeeded e userId db)
       \<and> summarize e userId req db =
           (\<lparr>status = 403,
              json_body = LimitReachedBody ''Daily enhancement limit reached''
                (enhancements_used r) (enhancements_limit r)\<rparr>,
            resetDailyUsageIfNeeded e userId db)"
  using usage_gate_at_limit [of "resetDailyUsageIfNeeded e userId db" userId r e, OF assms(1,2)]
    summarize_prepare_at_limit [of e userId db r req contentText, OF assms]
  by (simp add: summarize_def)

lemma reset_within_window:
  assumes "db userId = Some r" and "now - last_reset_at r < day_ms"
  shows "resetIfNeeded now userId db = db"
  using assms by (simp add: resetIfNeeded_def)

lemma sample_reset:
  "resetDailyUsageIfNeeded (sample_env 3600000 p parse) 42 (sample_users (sample_user plan used))
   = sample_users (sample_user plan used)"
  by (simp add: sample_env_def sample_users_def sample_user_def resetIfNeeded_def day_ms_def)

lemma sample_content_text: "content_text (sample_request t) = (if t = [] then None else Some t)"
  by (simp add: content_text_def sample_request_def js_or_def falsy_def)

lemma sample_content_type:
  "or_default (req_contentType (sample_request t)) ''video'' = ''video''"
  by (simp add: sample_request_def or_default_def)

theorem limit_check_ignores_plan_witness:
  "resetDailyUsageIfNeeded (sample_env 3600000 (HttpOk ''A summary.'') (\<lambda>_. None)) 42
       (sample_users (sample_user Premium 12)) 42 = Some (sample_user Premium 12)
   \<and> enhancements_used (sample_user Premium 12) \<ge> enhancements_limit (sample_user Premium 12)
   \<and> or_default (req_contentType (sample_request ''Plants make food from sunlight.'')) ''video''
       \<in> set validContentTypes
   \<and> content_text (sample_request ''Plants make food from sunlight.'')
       = Some ''Plants make food from sunlight.''
   \<and> ''Plants make food from sunlight.'' \<noteq> []
   \<and> summarize (sample_env 3600000 (HttpOk ''A summary.'') (\<lambda>_. None)) 42
         (sample_request ''Plants make food from sunlight.'') (sample_users (sample_user Premium 12))
       = (\<lparr>status = 403,
            json_body = LimitReachedBody ''Daily enhancement limit reached'' 12 10\<rparr>,
          sample_users (sample_user Premium 12))"
proof -
  have r: "resetDailyUsageIfNeeded (sample_env 3600000 (HttpOk ''A summary.'') (\<lambda>_. None)) 42
       (sample_users (sample_user Premium 12)) 42 = Some (sample_user Premium 12)"
    unfolding sample_reset by (simp add: sample_users_def)
  have u: "enhancements_used (sample_user Premium 12) \<ge> enhancements_limit (sample_user Premium 12)"
    by (simp add: sample_user_def)
  have t: "or_default (req_contentType (sample_request ''Plants make food from sunlight.'')) ''video''
       \<in> set validContentTypes"
    unfolding sample_content_type by (simp add: validContentTypes_def)
  have c: "content_text (sample_request ''Plants make food from sunlight.'')
       = Some ''Plants make food from sunlight.''"
    unfolding sample_content_text by simp
  have n: "''Plants make food from sunlight.'' \<noteq> []" by simp
  show ?thesis
    using limit_check_ignores_plan
      [of "sample_env 3600000 (HttpOk ''A summary.'') (\<lambda>_. None)" 42
          "sample_users (sample_user Premium 12)" "sample_user Premium 12"
          "sample_request ''Plants make food from sunlight.''" "''Plants make food from sunlight.''",
       OF r u t c n] r u t c
    unfolding sample_reset by (simp add: sample_user_def)
qed

text \<open>
  The claim C2 as stated fails: a premium user with 10 of 10 enhancements used, one hour
  into the quota window, sends a summarize request with a working provider and receives
  status 403.
\<close>

theorem premium_at_limit_rejected:
  "subscription_status (sample_user Premium 10) = Premium
   \<and> enhancements_used (sample_user Premium 10) = enhancements_limit (sample_user Premium 10)
   \<and> summarize (sample_env 3600000 (HttpOk ''A summary.'') (\<lambda>_. None)) 42
         (sample_request ''Plants make food from sunlight.'') (sample_users (sample_user Premium 10))
       = (\<lparr>status = 403,
            json_body = LimitReachedBody ''Daily enhancement limit reached'' 10 10\<rparr>,
          sample_users (sample_user Premium 10))"
proof -
  have "usage_gate (sample_env 3600000 (HttpOk ''A summary.'') (\<lambda>_. None)) 42
          (sample_users (sample_user Premium 10))
        = (Some \<lparr>status = 403,
                  json_body = LimitReachedBody ''Daily enhancement limit reached'' 10 10\<rparr>,
           sample_users (sample_user Premium 10))"
    by (simp add: usage_gate_def sample_users_def sample_user_def)
  then have "summarize_prepare (sample_env 3600000 (HttpOk ''A summary.'') (\<lambda>_. None)) 42
         (sample_request ''Plants make food from sunlight.'') (sample_users (sample_user Premium 10))
       = Inl (\<lparr>status = 403,
            json_body = LimitReachedBody ''Daily enhancement limit reached'' 10 10\<rparr>,
          sample_users (sample_user Premium 10))"
    by (simp add: summarize_prepare_def sample_content_type sample_content_text sample_reset
        validContentTypes_def Let_def)
  then show ?thesis
    by (simp add: summarize_def sample_user_def)
qed


lemma usage_gate_passed:
  assumes "db userId = Some r" and "enhancements_used r < enhancements_limit r"
    and "incrementUsage e userId db = (res, db')" and "success res"
  shows "usage_gate e userId db = (None, db')"
  using assms by (simp add: usage_gate_def)

lemma summarize_prepare_passed:
  assumes "or_default (req_contentType req) ''video'' \<in> set validContentTypes"
    and "content_text req = Some contentText" and "contentText \<noteq> []"
    and "usage_gate e userId (resetDailyUsageIfNeeded e userId db) = (None, db')"
  shows "summarize_prepare e userId req db =
           (if length (clean_content (or_default (req_contentType req) ''video'') contentText) < 10
            then Inl (\<lparr>status = 400, json_body = ErrorBody ''Content is too short or empty''\<rparr>, db')
            else Inr (or_default (req_contentType req) ''video'',
                      clean_content (or_default (req_contentType req) ''video'') contentText, db'))"
  using assms by (simp add: summarize_prepare_def Let_def)

text \<open>
  C4. A summarize request that passes validation and the usage check reaches the provider
  call with the table as \<open>incrementUsage\<close> left it; if the provider call then fails, the
  response is status 500 with the error's message and the table is still the one
  \<open>incrementUsage\<close> left: nothing is refunded. With \<open>incrementIfAllowed\<close> as the helper,
  that table has the user's counter one higher than before the request.
\<close>

theorem increment_not_refunded:
  assumes "or_default (req_contentType req) ''video'' = type"
    and "type \<in> set validContentTypes"
    and "content_text req = Some contentText" and "contentText \<noteq> []"
    and "resetDailyUsageIfNeeded e userId db = db1"
    and "db1 userId = Some r"
    and "enhancements_used r < enhancements_limit r"
    and "incrementUsage e userId db1 = (res, db2)" and "success res"
    and "length (clean_content type contentText) \<ge> 10"
    and "callOpenAI e (clean_content type contentText) = Inl msg"
  shows "summarize_prepare e userId req db = Inr (type, clean_content type contentText, db2)
       \<and> summarize e userId req db
           = (\<lparr>status = 500,
                json_body = ErrorBody (if msg = [] then ''Failed to generate summary'' else msg)\<rparr>,
              db2)
       \<and> (incrementUsage e = incrementIfAllowed \<longrightarrow>
            db2 = db1(userId \<mapsto> r\<lparr>enhancements_used := enhancements_used r + 1\<rparr>))"
proof -
  have gate: "usage_gate e userId (resetDailyUsageIfNeeded e userId db) = (None, db2)"
    unfolding assms(5) using assms(6-9) by (rule usage_gate_passed)
  have prep: "summarize_prepare e userId req db = Inr (type, clean_content type contentText, db2)"
    using summarize_prepare_passed [of req contentText e userId db db2] assms(1-4,10) gate
    by simp
  have run: "summarize e userId req db
           = (\<lparr>status = 500,
                json_body = ErrorBody (if msg = [] then ''Failed to generate summary'' else msg)\<rparr>,
              db2)"
    using prep assms(11) by (simp add: summarize_def summarize_respond_def caught_def)
  have incr: "db2 = db1(userId \<mapsto> r\<lparr>enhancements_used := enhancements_used r + 1\<rparr>)"
    if "incrementUsage e = incrementIfAllowed"
    using that assms(6-8) by (simp add: incrementIfAllowed_def)
  show ?thesis using prep run incr by simp
qed

lemma sample_clean: "clean_content ''video'' ''[0:01] Plants make food [0:05] from sunlight.''
    = ''Plants make food from sunlight.''"
  by (simp add: clean_content_def trim_def match_timestamp_def is_digit_def is_space_def)

theorem increment_not_refunded_witness:
  "or_default (req_contentType (sample_request ''[0:01] Plants make food [0:05] from sunlight.''))
       ''video'' = ''video''
   \<and> ''video'' \<in> set validContentTypes
   \<and> content_text (sample_request ''[0:01] Plants make food [0:05] from sunlight.'')
       = Some ''[0:01] Plants make food [0:05] from sunlight.''
   \<and> sample_users (sample_user Freemium 3) 42 = Some (sample_user Freemium 3)
   \<and> enhancements_used (sample_user Freemium 3) < enhancements_limit (sample_user Freemium 3)
   \<and> incrementUsage (sample_env 3600000 (HttpError ''overloaded'') (\<lambda>_. None)) 42
         (sample_users (sample_user Freemium 3))
       = (\<lparr>success = True, error = None,
            usage = Some \<lparr>enhancementsUsed = 4, enhancementsLimit = 10\<rparr>\<rparr>,
          sample_users (sample_user Freemium 4))
   \<and> length (clean_content ''video'' ''[0:01] Plants make food [0:05] from sunlight.'') \<ge> 10
   \<and> callOpenAI (sample_env 3600000 (HttpError ''overloaded'') (\<lambda>_. None))
         (clean_content ''video'' ''[0:01] Plants make food [0:05] from sunlight.'')
       = Inl ''OpenAI API error: overloaded''
   \<and> summarize (sample_env 3600000 (HttpError ''overloaded'') (\<lambda>_. None)) 42
         (sample_request ''[0:01] Plants make food [0:05] from sunlight.'')
         (sample_users (sample_user Freemium 3))
       = (\<lparr>status = 500, json_body = ErrorBody ''OpenAI API error: overloaded''\<rparr>,
          sample_users (sample_user Freemium 4))"
proof -
  let ?e = "sample_env 3600000 (HttpError ''overloaded'') (\<lambda>_. None)"
  let ?t = "''[0:01] Plants make food [0:05] from sunlight.''"
  have h1: "or_default (req_contentType (sample_request ?t)) ''video'' = ''video''"
    by (rule sample_content_type)
  have h2: "''video'' \<in> set validContentTypes"
    by (simp add: validContentTypes_def)
  have h3: "content_text (sample_request ?t) = Some ?t"
    unfolding sample_content_text by simp
  have h4: "?t \<noteq> []" by simp
  have h5: "resetDailyUsageIfNeeded ?e 42 (sample_users (sample_user Freemium 3))
      = sample_users (sample_user Freemium 3)"
    by (rule sample_reset)
  have h6: "sample_users (sample_user Freemium 3) 42 = Some (sample_user Freemium 3)"
    by (simp add: sample_users_def)
  have h7: "enhancements_used (sample_user Freemium 3) < enhancements_limit (sample_user Freemium 3)"
    by (simp add: sample_user_def)
  have h8: "incrementUsage ?e 42 (sample_users (sample_user Freemium 3))
      = (\<lparr>success = True, error = None,
           usage = Some \<lparr>enhancementsUsed = 4, enhancementsLimit = 10\<rparr>\<rparr>,
         sample_users (sample_user Freemium 4))"
    by (simp add: sample_env_def incrementIfAllowed_def sample_users_def sample_user_def)
  have h9: "success \<lparr>success = True, error = None,
           usage = Some \<lparr>enhancementsUsed = 4, enhancementsLimit = 10\<rparr>\<rparr>"
    by simp
  have h10: "length (clean_content ''video'' ?t) \<ge> 10"
    unfolding sample_clean by simp
  have h11: "callOpenAI ?e (clean_content ''video'' ?t) = Inl ''OpenAI API error: overloaded''"
    by (simp add: callOpenAI_def sample_env_def falsy_def)
  note concl = increment_not_refunded [OF h1 h2 h3 h4 h5 h6 h7 h8 h9 h10 h11]
  show ?thesis
    using h1 h2 h3 h6 h7 h8 h10 h11 concl by simp
qed

text \<open>The \<^verbatim>\<open>/flashcards\<close> route keeps the increment in the same way.\<close>

lemma flashcards_increment_not_refunded:
  assumes "or_default (fc_contentType req) ''video'' = type"
    and "(if type = ''video'' then or_default (fc_transcript req) []
          else or_default (fc_text req) []) = contentText"
    and "contentText \<noteq> []"
    and "resetDailyUsageIfNeeded e userId db = db1"
    and "db1 userId = Some r"
    and "enhancements_used r < enhancements_limit r"
    and "incrementUsage e userId db1 = (res, db2)" and "success res"
    and "take 4000 (clean_content type contentText) = cleanContent"
    and "length cleanContent \<ge> 50"
    and "callOpenAI e cleanContent = Inl msg"
  shows "flashcards e userId req db
         = (\<lparr>status = 500,
              json_body = ErrorBody (if msg = [] then ''Failed to generate flashcards'' else msg)\<rparr>,
            db2)"
proof -
  have gate: "usage_gate e userId (resetDailyUsageIfNeeded e userId db) = (None, db2)"
    unfolding assms(4) using assms(5-8) by (rule usage_gate_passed)
  have cut: "(if length (clean_content type contentText) > 4000
              then take 4000 (clean_content type contentText)
              else clean_content type contentText) = cleanContent"
    using assms(9) by auto
  have "flashcards_prepare e userId req db = Inr (type, cleanContent, db2)"
    using assms(1-3,10) gate cut
    by (simp add: flashcards_prepare_def Let_def)
  then show ?thesis
    using assms(11) by (simp add: flashcards_def flashcards_respond_def caught_def)
qed

text \<open>
  C5, evaluated at a failing input. A freemium user with 3 of 10 enhancements used sends a
  summarize request whose transcript cleans to two characters: the response is status 400
  and the counter is 4.
\<close>

theorem late_validation_spends_quota:
  "summarize (sample_env 3600000 (HttpOk ''A summary.'') (\<lambda>_. None)) 42
     (sample_request ''[0:01] hi'') (sample_users (sample_user Freemium 3))
   = (\<lparr>status = 400, json_body = ErrorBody ''Content is too short or empty''\<rparr>,
      sample_users (sample_user Freemium 4))"
proof -
  let ?e = "sample_env 3600000 (HttpOk ''A summary.'') (\<lambda>_. None)"
  have gate: "usage_gate ?e 42 (sample_users (sample_user Freemium 3))
      = (None, sample_users (sample_user Freemium 4))"
    by (simp add: usage_gate_def sample_env_def incrementIfAllowed_def sample_users_def
        sample_user_def)
  have clean: "clean_content ''video'' ''[0:01] hi'' = ''hi''"
    by (simp add: clean_content_def trim_def match_timestamp_def is_digit_def is_space_def)
  show ?thesis
    by (simp add: summarize_def summarize_prepare_def sample_content_type sample_content_text
        sample_reset gate clean validContentTypes_def Let_def)
qed

text \<open>
  The same happens in \<^verbatim>\<open>/flashcards\<close>, whose length check also comes after the increment.
\<close>

lemma flashcards_late_validation_spends_quota:
  "flashcards (sample_env 3600000 (HttpOk ''[]'') (\<lambda>_. None)) 42
     \<lparr>fc_contentType = Some ''webpage'', fc_transcript = None,
      fc_text = Some ''Plants make food.''\<rparr>
     (sample_users (sample_user Freemium 3))
   = (\<lparr>status = 400, json_body = ErrorBody ''Content is too short to generate flashcards''\<rparr>,
      sample_users (sample_user Freemium 4))"
proof -
  let ?e = "sample_env 3600000 (HttpOk ''[]'') (\<lambda>_. None)"
  have gate: "usage_gate ?e 42 (sample_users (sample_user Freemium 3))
      = (None, sample_users (sample_user Freemium 4))"
    by (simp add: usage_gate_def sample_env_def incrementIfAllowed_def sample_users_def
        sample_user_def)
  have clean: "clean_content ''webpage'' ''Plants make food.'' = ''Plants make food.''"
    by (simp add: clean_content_def trim_def is_space_def)
  show ?thesis
    by (simp add: flashcards_def flashcards_prepare_def or_default_def sample_reset gate clean
        Let_def)
qed

text \<open>
  The two checks that come before the usage check do leave the table as it is.
\<close>

lemma early_validation_keeps_table:
  assumes "or_default (req_contentType req) ''video'' \<notin> set validContentTypes
           \<or> falsy (content_text req)"
  shows "status (fst (summarize e userId req db)) = 400 \<and> snd (summarize e userId req db) = db"
  using assms
  by (auto simp: summarize_def summarize_prepare_def falsy_def Let_def split: option.splits)

section \<open>Properties of two requests in flight\<close>

text \<open>
  The usage check of the routes is its two steps one after the other, and a request that
  takes both its steps with nothing in between does what \<open>usage_gate\<close> does.
\<close>

lemma usage_gate_steps:
  "usage_gate e userId db =
     (case usage_select userId db of
        Some r \<Rightarrow> (Some r, db)
      | None \<Rightarrow> usage_increment e userId db)"
  by (simp add: usage_gate_def usage_select_def usage_increment_def split: option.splits)

lemma run_alone_is_usage_gate:
  "run_schedule e userId [True, True] (AtSelect, b, db)
   = (Finished (fst (usage_gate e userId db)), b, snd (usage_gate e userId db))"
  by (simp add: usage_gate_steps split: option.splits prod.splits)



text \<open>
  With \<open>incrementIfAllowed\<close> as the helper and a freemium row with one slot left, each
  step of either request keeps the configuration among those of \<open>one_slot_config\<close>.
\<close>

lemma one_slot_step:
  assumes "incrementUsage e = incrementIfAllowed"
    and "db userId = Some r" and "subscription_status r = Freemium"
    and "enhancements_used r = enhancements_limit r - 1"
  shows "request_step e userId AtSelect db = (AtIncrement, db)"
    and "request_step e userId AtIncrement db = (Finished None, at_limit db userId r)"
    and "request_step e userId AtSelect (at_limit db userId r)
         = (Finished (Some (refused_by_route r)), at_limit db userId r)"
    and "request_step e userId AtIncrement (at_limit db userId r)
         = (Finished (Some (refused_by_helper r)), at_limit db userId r)"
  using assms
  by (simp_all add: usage_select_def usage_increment_def incrementIfAllowed_def at_limit_def
      refused_by_route_def refused_by_helper_def or_default_def)

lemma one_slot_config_step:
  assumes "incrementUsage e = incrementIfAllowed"
    and "db userId = Some r" and "subscription_status r = Freemium"
    and "enhancements_used r = enhancements_limit r - 1"
    and "one_slot_config db userId r (a, b, db')"
  shows "one_slot_config db userId r (fst (request_step e userId a db'), b,
           snd (request_step e userId a db'))"
    and "one_slot_config db userId r (a, fst (request_step e userId b db'),
           snd (request_step e userId b db'))"
  using assms(5) one_slot_step [of e db userId r, OF assms(1-4)]
  by (auto simp: one_slot_config_def on_the_way_def)

lemma one_slot_config_run:
  assumes "incrementUsage e = incrementIfAllowed"
    and "db userId = Some r" and "subscription_status r = Freemium"
    and "enhancements_used r = enhancements_limit r - 1"
  shows "one_slot_config db userId r c \<Longrightarrow>
         one_slot_config db userId r (run_schedule e userId sched c)"
proof (induction sched arbitrary: c)
  case Nil
  then show ?case by simp
next
  case (Cons first sched)
  obtain a b db' where c: "c = (a, b, db')" by (cases c)
  note step = one_slot_config_step [of e db userId r a b db', OF assms Cons.prems [unfolded c]]
  show ?case
  proof (cases first)
    case True
    obtain a' d where st: "request_step e userId a db' = (a', d)"
      by (cases "request_step e userId a db'")
    from step(1) have "one_slot_config db userId r (a', b, d)"
      by (simp add: st)
    then have "one_slot_config db userId r (run_schedule e userId sched (a', b, d))"
      by (rule Cons.IH)
    then show ?thesis
      using True by (simp add: c st)
  next
    case False
    obtain b' d where st: "request_step e userId b db' = (b', d)"
      by (cases "request_step e userId b db'")
    from step(2) have "one_slot_config db userId r (a, b', d)"
      by (simp add: st)
    then have "one_slot_config db userId r (run_schedule e userId sched (a, b', d))"
      by (rule Cons.IH)
    then show ?thesis
      using False by (simp add: c st)
  qed
qed


text \<open>
  At no point of any schedule, finished or not, have both requests passed, and the counter
  never exceeds the limit.
\<close>

lemma one_slot_never_two_passes:
  assumes "incrementUsage e = incrementIfAllowed"
    and "db userId = Some r" and "subscription_status r = Freemium"
    and "enhancements_used r = enhancements_limit r - 1"
    and "run_schedule e userId sched (AtSelect, AtSelect, db) = (a, b, db')"
  shows "\<not> (a = Finished None \<and> b = Finished None)"
    and "\<exists>r'. db' userId = Some r' \<and> enhancements_used r' \<le> enhancements_limit r'
              \<and> enhancements_limit r' = enhancements_limit r"
proof -
  have "one_slot_config db userId r (AtSelect, AtSelect, db)"
    by (simp add: one_slot_config_def)
  then have inv: "one_slot_config db userId r (a, b, db')"
    using one_slot_config_run [of e db userId r "(AtSelect, AtSelect, db)" sched, OF assms(1-4)]
      assms(5)
    by simp
  show "\<not> (a = Finished None \<and> b = Finished None)"
    using inv by (auto simp: one_slot_config_def on_the_way_def)
  show "\<exists>r'. db' userId = Some r' \<and> enhancements_used r' \<le> enhancements_limit r'
              \<and> enhancements_limit r' = enhancements_limit r"
    using inv assms(2,4) by (auto simp: one_slot_config_def at_limit_def)
qed


lemma sample_select_passes:
  "used < 10 \<Longrightarrow> usage_select 42 (sample_users (sample_user plan used)) = None"
  by (simp add: usage_select_def sample_users_def sample_user_def)





text \<open>
  The route's own \<^verbatim>\<open>SELECT\<close> and test do not prevent this: with a helper that increments
  without a test, the same schedule lets both requests of a freemium user pass.
\<close>

lemma unchecked_increment_both_pass:
  "run_schedule unchecked_env 42 [True, False, True, False]
     (AtSelect, AtSelect, sample_users (sample_user Freemium 9))
   = (Finished None, Finished None, sample_users (sample_user Freemium 11))"
proof -
  have incr: "usage_increment unchecked_env 42 (sample_users (sample_user Freemium used))
      = (None, sample_users (sample_user Freemium (used + 1)))" for used
    by (simp add: usage_increment_def unchecked_env_def sample_env_def
        incrementUnconditionally_def sample_users_def sample_user_def)
  show ?thesis
    using incr [of 9] incr [of 10] by (simp add: sample_select_passes)
qed

section \<open>Properties of the flashcard parser\<close>

lemma validate_flashcards_length: "length (validate_flashcards v) \<le> 10"
  by (cases v) (simp_all add: validate_flashcards_def)

lemma match_json_array_span:
  assumes "CHR ''['' \<notin> set pre" and "CHR '']'' \<notin> set post"
  shows "match_json_array (pre @ ''['' @ mid @ '']'' @ post) = Some (''['' @ mid @ '']'')"
proof -
  have front: "dropWhile (\<lambda>c. c \<noteq> CHR ''['') (pre @ ''['' @ mid @ '']'' @ post)
      = CHR ''['' # (mid @ '']'' @ post)"
    using assms(1) by (auto simp: dropWhile_append3)
  have "dropWhile (\<lambda>c. c \<noteq> CHR '']'') (rev (mid @ '']'' @ post)) = CHR '']'' # rev mid"
    using assms(2) by (auto simp: dropWhile_append3)
  then have tail_part: "rev (dropWhile (\<lambda>c. c \<noteq> CHR '']'') (rev (mid @ '']'' @ post))) = mid @ '']''"
    by simp
  show ?thesis
    unfolding match_json_array_def front list.case tail_part
    by (cases "mid @ '']''") simp_all
qed

lemma match_json_array_none:
  assumes "CHR ''['' \<notin> set response"
  shows "match_json_array response = None"
proof -
  have none: "dropWhile (\<lambda>c. c \<noteq> CHR ''['') response = []"
    using assms by (auto simp: dropWhile_eq_Nil_conv)
  show ?thesis unfolding match_json_array_def none by simp
qed

lemma valid_fallback_card:
  assumes "trim (snd p) \<noteq> []"
  shows "valid_card (fallback_card p)" and "to_card (fallback_card p) = naive_card p"
proof -
  obtain i l where p: "p = (i, l)" by (cases p)
  with assms have l: "trim l \<noteq> []" by simp
  show "valid_card (fallback_card p)"
    using l by (simp add: p valid_card_def fallback_card_def get_prop_def or_else_def is_truthy_def)
  show "to_card (fallback_card p) = naive_card p"
    using l
    by (simp add: p to_card_def fallback_card_def naive_card_def get_prop_def or_else_def
        or_empty_def)
qed

lemma validate_fallback: "validate_flashcards (fallback_cards response) = naive_cards response"
proof -
  let ?lines = "filter (\<lambda>line. trim line \<noteq> []) (split_on (CHR 0x0A) response)"
  let ?ps = "enumerate 0 (take 10 ?lines)"
  have "snd p \<in> set ?lines" if "p \<in> set ?ps" for p
  proof -
    from that have "snd p \<in> snd ` set ?ps" by (rule imageI)
    then have "snd p \<in> set (map snd ?ps)" by (simp only: set_map)
    then show ?thesis by (auto dest: in_set_takeD)
  qed
  then have ok: "trim (snd p) \<noteq> []" if "p \<in> set ?ps" for p
    using that by simp
  have "filter valid_card (map fallback_card ?ps) = map fallback_card ?ps"
    using ok by (auto simp: filter_id_conv valid_fallback_card(1))
  moreover have "map to_card (map fallback_card ?ps) = map naive_card ?ps"
    using ok by (simp add: valid_fallback_card(2))
  moreover have "length ?ps \<le> 10" by simp
  ultimately show ?thesis
    by (simp add: validate_flashcards_def fallback_cards_def naive_cards_def Let_def)
qed

text \<open>
  C9, as amended. Whatever the provider's response and whatever \<^verbatim>\<open>JSON.parse\<close> does, the
  list of flashcards has at most 10 cards. If the response is prose without \<^verbatim>\<open>[\<close>, then
  the text of a JSON array, then prose without \<^verbatim>\<open>]\<close>, the array is what is parsed, and
  the result is its valid cards (an object with a truthy \<^verbatim>\<open>question\<close> or \<^verbatim>\<open>front\<close> and a
  truthy \<^verbatim>\<open>answer\<close> or \<^verbatim>\<open>back\<close>), at most the first ten. If the response has no \<^verbatim>\<open>[\<close>
  and is not JSON, or more generally whenever the text handed to \<^verbatim>\<open>JSON.parse\<close> makes it
  throw, no error is raised and the result is the naive cards of the first ten non-blank
  lines.
\<close>

theorem flashcard_parse_resilience:
  "length (parse_flashcards parse response) \<le> 10
   \<and> (\<forall>pre mid post cards.
         response = pre @ ''['' @ mid @ '']'' @ post
         \<and> CHR ''['' \<notin> set pre \<and> CHR '']'' \<notin> set post
         \<and> parse (''['' @ mid @ '']'') = Some (JArr cards)
         \<longrightarrow> parse_flashcards parse response = take 10 (map to_card (filter valid_card cards)))
   \<and> (CHR ''['' \<notin> set response \<and> parse response = None
         \<longrightarrow> parse_attempt parse response = None)
   \<and> (parse_attempt parse response = None
         \<longrightarrow> parse_flashcards parse response = naive_cards response)
   \<and> length (naive_cards response) \<le> 10"
proof -
  have bound: "length (parse_flashcards parse response) \<le> 10"
    by (simp add: parse_flashcards_def validate_flashcards_length)
  have extraction: "parse_flashcards parse response = take 10 (map to_card (filter valid_card cards))"
    if "response = pre @ ''['' @ mid @ '']'' @ post"
      and "CHR ''['' \<notin> set pre" and "CHR '']'' \<notin> set post"
      and "parse (''['' @ mid @ '']'') = Some (JArr cards)"
    for pre mid post cards
    using that match_json_array_span [of pre post mid]
    by (simp add: parse_flashcards_def parse_response_def parse_attempt_def
        validate_flashcards_def)
  have nomatch: "parse_attempt parse response = None"
    if "CHR ''['' \<notin> set response" and "parse response = None"
    using that by (simp add: parse_attempt_def match_json_array_none)
  have fallback: "parse_flashcards parse response = naive_cards response"
    if "parse_attempt parse response = None"
    using that by (simp add: parse_flashcards_def parse_response_def validate_fallback)
  have "length (naive_cards response) \<le> 10"
    by (simp add: naive_cards_def)
  then show ?thesis
    using bound extraction nomatch fallback by blast
qed


lemma sample_cards_valid:
  "take 10 (map to_card (filter valid_card sample_cards))
   = [\<lparr>question = JStr ''What is photosynthesis?'', answer = JStr ''How plants make food.''\<rparr>]"
  by (simp add: sample_cards_def valid_card_def to_card_def get_prop_def or_else_def
      is_truthy_def or_empty_def)

lemma prose_no_bracket: "CHR ''['' \<notin> set prose_response"
  by (simp add: prose_response_def)

lemma prose_not_json: "sample_JSON_parse prose_response = None"
  by (simp add: sample_JSON_parse_def prose_response_def sample_cards_text_def)

lemma naive_cards_prose:
  "naive_cards prose_response
   = [\<lparr>question = JStr ''Question 1'', answer = JStr ''Plants make food from light.''\<rparr>,
      \<lparr>question = JStr ''Question 2'', answer = JStr ''They need water too.''\<rparr>]"
  by (simp add: naive_cards_def naive_card_def prose_response_def trim_def is_space_def
      enumerate_eq_zip upt_rec string_of_nat.simps)

theorem flashcard_parse_resilience_witness:
  "fenced_response
     = (''Here are your flashcards: ```json'' @ [CHR 0x0A]) @ ''['' @ sample_cards_inner @ '']''
       @ (CHR 0x0A # ''```'')
   \<and> CHR ''['' \<notin> set (''Here are your flashcards: ```json'' @ [CHR 0x0A])
   \<and> CHR '']'' \<notin> set (CHR 0x0A # ''```'')
   \<and> sample_JSON_parse (''['' @ sample_cards_inner @ '']'') = Some (JArr sample_cards)
   \<and> parse_flashcards sample_JSON_parse fenced_response
       = [\<lparr>question = JStr ''What is photosynthesis?'', answer = JStr ''How plants make food.''\<rparr>]
   \<and> CHR ''['' \<notin> set prose_response
   \<and> sample_JSON_parse prose_response = None
   \<and> parse_attempt sample_JSON_parse prose_response = None
   \<and> parse_flashcards sample_JSON_parse prose_response
       = [\<lparr>question = JStr ''Question 1'', answer = JStr ''Plants make food from light.''\<rparr>,
          \<lparr>question = JStr ''Question 2'', answer = JStr ''They need water too.''\<rparr>]"
proof -
  note fenced = flashcard_parse_resilience [of sample_JSON_parse fenced_response]
  note prose = flashcard_parse_resilience [of sample_JSON_parse prose_response]
  have f1: "fenced_response
     = (''Here are your flashcards: ```json'' @ [CHR 0x0A]) @ ''['' @ sample_cards_inner @ '']''
       @ (CHR 0x0A # ''```'')"
    by (simp add: fenced_response_def sample_cards_text_def)
  have f2: "CHR ''['' \<notin> set (''Here are your flashcards: ```json'' @ [CHR 0x0A])"
    by simp
  have f3: "CHR '']'' \<notin> set (CHR 0x0A # ''```'')"
    by simp
  have f4: "sample_JSON_parse (''['' @ sample_cards_inner @ '']'') = Some (JArr sample_cards)"
    by (simp add: sample_JSON_parse_def sample_cards_text_def)
  have f5: "parse_flashcards sample_JSON_parse fenced_response
       = take 10 (map to_card (filter valid_card sample_cards))"
    using fenced f1 f2 f3 f4 by blast
  have p3: "parse_attempt sample_JSON_parse prose_response = None"
    using prose prose_no_bracket prose_not_json by blast
  have p4: "parse_flashcards sample_JSON_parse prose_response = naive_cards prose_response"
    using prose p3 by blast
  show ?thesis
    using f1 f2 f3 f4 f5 prose_no_bracket prose_not_json p3 p4
    unfolding sample_cards_valid naive_cards_prose by simp
qed

lemma bracket_match:
  "match_json_array bracket_response
   = Some (''['' @ (''1 of 1]: ['' @ sample_cards_inner) @ '']'')"
proof -
  have "bracket_response
      = ''Here are your flashcards '' @ ''['' @ (''1 of 1]: ['' @ sample_cards_inner) @ '']'' @ []"
    by (simp add: bracket_response_def sample_cards_text_def)
  moreover have "CHR ''['' \<notin> set ''Here are your flashcards ''" by simp
  moreover have "CHR '']'' \<notin> set ([] :: string)" by simp
  ultimately show ?thesis
    using match_json_array_span [of "''Here are your flashcards ''" "[]"
        "''1 of 1]: ['' @ sample_cards_inner"]
    by simp
qed

lemma naive_cards_bracket:
  "naive_cards bracket_response
   = [\<lparr>question = JStr ''Question 1'', answer = JStr bracket_response\<rparr>]"
  by (simp add: naive_cards_def naive_card_def bracket_response_def sample_cards_text_def
      sample_cards_inner_def trim_def is_space_def enumerate_eq_zip upt_rec string_of_nat.simps)

text \<open>
  The claim C9 as stated fails: a response that holds a valid JSON array after prose with
  brackets in it. The match runs from the first bracket of the prose to the end of the
  array, \<^verbatim>\<open>JSON.parse\<close> throws on it, and the result is one naive card whose answer is the
  whole response, not the card of the embedded array.
\<close>

theorem bracketed_prose_defeats_extraction:
  "bracket_response = ''Here are your flashcards [1 of 1]: '' @ sample_cards_text
   \<and> sample_JSON_parse sample_cards_text = Some (JArr sample_cards)
   \<and> parse_flashcards sample_JSON_parse bracket_response
       = [\<lparr>question = JStr ''Question 1'', answer = JStr bracket_response\<rparr>]
   \<and> parse_flashcards sample_JSON_parse bracket_response
       \<noteq> take 10 (map to_card (filter valid_card sample_cards))"
proof -
  have attempt: "parse_attempt sample_JSON_parse bracket_response = None"
    unfolding parse_attempt_def bracket_match
    by (simp add: sample_JSON_parse_def sample_cards_text_def)
  have cards: "parse_flashcards sample_JSON_parse bracket_response
       = [\<lparr>question = JStr ''Question 1'', answer = JStr bracket_response\<rparr>]"
    by (simp add: parse_flashcards_def parse_response_def attempt validate_fallback
        naive_cards_bracket)
  show ?thesis
    unfolding cards sample_cards_valid
    by (simp add: bracket_response_def sample_JSON_parse_def)
qed

end
